theory Spec2Isabelle
  imports Complex_Main "HOL-Library.Word"
begin

unbundle bit_operations_syntax

section \<open>The path manager of flight/Modules/PathManager/pathmanager.c\<close>

text \<open>
  The module keeps its state in file-level statics and in the locals of its task
  function; here they are the fields of one record that every operation takes and
  returns. Conventions of the embedding:
  \<^item> a C \<open>float\<close> held in a variable or a field is a \<open>real\<close>, a finite value. The
    angular bookkeeping (the arc part of advanceSegment, the arc tracker, the gate
    before the goal test) is taken in exact arithmetic. The two computations whose
    outcome is published as a number or a flag, the timeout of lines 375 to 386 and
    the overshoot test of lines 453 to 466, are taken in single precision, operation
    by operation, with the type \<open>float32\<close> for their intermediate values;
  \<^item> \<open>float[2]\<close> and \<open>float[3]\<close> are pairs and triples; a pointer to a \<open>float[3]\<close>
    handed to a routine that reads a North/East pair is the projection \<open>NE\<close>;
  \<^item> instance ids of the object manager, and with them \<open>ActiveSegment\<close>, are
    16-bit unsigned, as \<open>Timeout\<close> is (the source sets it to 65535, "the maximum
    possible value for variable type"); \<open>PathCounter\<close> is taken 16-bit as well and no
    statement below depends on its width; tick counts are 32-bit unsigned;
  \<^item> the multi-instance object PathSegmentDescriptor is the list \<open>instances\<close>;
    the single-instance object PathManagerStatus, as the other tasks read it, is the
    field \<open>PathManagerStatus_object\<close>, written by \<open>PathManagerStatusSet\<close>;
  \<^item> routines and macros that the file uses and other files of the firmware define
    (paths_library, path_managers, misc_math, physical_constants, FreeRTOS) are the
    fields of the record \<open>externals\<close>, so every theorem holds whatever they compute;
    two of them, \<open>bound_min_max\<close> and \<open>VectorMagnitude\<close>, are defined here instead,
    from what the spec says of them.
\<close>

type_synonym vec2 = "real \<times> real"
type_synonym vec3 = "real \<times> real \<times> real"
type_synonym portTickType = "32 word"

definition NE :: "vec3 \<Rightarrow> vec2" where
  "NE v = (fst v, fst (snd v))"

datatype guidanceTypes = NOMANAGER | RETURNHOME | HOLDPOSITION | PATHPLANNER

text \<open>The source names two results of \<open>find_arc_center\<close> and handles the others under
  \<open>default:\<close>; the third constructor stands for them.\<close>

datatype arc_center_results = CENTER_FOUND | INSUFFICIENT_RADIUS | ARC_CENTER_OTHER

datatype path_status = STATUS_INPROGRESS | STATUS_COMPLETED | STATUS_TIMEDOUT | STATUS_OVERSHOOT

datatype switching_strategy = SWITCHINGSTRATEGY_HALFPLANE | SWITCHINGSTRATEGY_BBALL | SWITCHINGSTRATEGY_OTHER

datatype arc_rank = ARCRANK_MINOR | ARCRANK_MAJOR

datatype flight_mode =
  FLIGHTMODE_RETURNTOHOME | FLIGHTMODE_POSITIONHOLD | FLIGHTMODE_PATHPLANNER | FLIGHTMODE_OTHER

datatype path_availability = PATHAVAILABILITY_PATHREADY | PATHAVAILABILITY_OTHER

datatype alarm_level = ALARM_CLEAR | ALARM_CRITICAL

record PreviousLocus =
  Position :: vec3
  Velocity :: real

record PathSegmentDescriptorData =
  SwitchingLocus :: vec3
  FinalVelocity :: real
  PathCurvature :: real
  NumberOfOrbits :: nat
  ArcRank :: arc_rank

record PathManagerStatusData =
  ActiveSegment :: "16 word"
  PathCounter :: "16 word"
  Status :: path_status
  Timeout :: "16 word"

record PathManagerSettingsData =
  SwitchingStrategy :: switching_strategy
  HalfPlaneAdvanceTiming :: real
  BBallThresholdDistance :: real

record FixedWingAirspeedsData =
  BestClimbRateSpeed :: real

text \<open>What the file takes from the rest of the firmware. \<open>find_arc_center\<close> gets the
  old content of the centre buffer and returns the new one with its result code;
  \<open>uninitialised\<close> is the content of the local \<open>pathSegmentDescriptor_past\<close> before
  anything is read into it; the three program loaders rewrite the segment instances;
  \<open>PATH_PLANNER\<close> is the compile-time switch of the task's mode selection;
  \<open>zero_status\<close> and \<open>zero_rank\<close> are the enumeration values with code 0, which the
  zero-initialised statics hold before the first write.\<close>

record externals =
  find_arc_center :: "vec2 \<Rightarrow> vec2 \<Rightarrow> real \<Rightarrow> bool \<Rightarrow> bool \<Rightarrow> vec2 \<Rightarrow> arc_center_results \<times> vec2"
  measure_arc_rad :: "vec2 \<Rightarrow> vec2 \<Rightarrow> vec2 \<Rightarrow> real"
  circular_modulus_deg :: "real \<Rightarrow> real"
  SIGN :: "real \<Rightarrow> real"
  half_plane_goal_test :: "vec2 \<Rightarrow> real \<Rightarrow> real \<Rightarrow> vec3 \<Rightarrow> PathSegmentDescriptorData
     \<Rightarrow> PathSegmentDescriptorData \<Rightarrow> real \<Rightarrow> real \<Rightarrow> bool"
  b_ball_goal_test :: "vec2 \<Rightarrow> vec3 \<Rightarrow> real \<Rightarrow> bool"
  RAD2DEG :: real
  DEG2RAD :: real
  portTICK_RATE_MS :: portTickType
  simple_return_to_home :: "PathSegmentDescriptorData list \<Rightarrow> PathSegmentDescriptorData list"
  simple_hold_position :: "PathSegmentDescriptorData list \<Rightarrow> PathSegmentDescriptorData list"
  example_program :: "PathSegmentDescriptorData list \<Rightarrow> PathSegmentDescriptorData list"
  PATH_PLANNER :: bool
  uninitialised :: PathSegmentDescriptorData
  zero_status :: path_status
  zero_rank :: arc_rank

record pm_state =
  instances :: "PathSegmentDescriptorData list"
  PathManagerStatus_object :: PathManagerStatusData
  alarm :: alarm_level
  fixedWingAirspeeds :: FixedWingAirspeedsData
  pathManagerSettings :: PathManagerSettingsData
  pathManagerStatus :: PathManagerStatusData
  pathSegmentDescriptor_current :: PathSegmentDescriptorData
  segmentTimer :: portTickType
  angularDistanceToComplete_D :: real
  angularDistanceCompleted_D :: real
  oldPosition_NE :: vec2
  arcCenter_NE :: vec2
  guidanceType :: guidanceTypes
  arc_has_center :: arc_center_results
  previousLocus :: PreviousLocus
  pathplanner_active :: bool
  lastSysTime :: portTickType
  overshootTimer :: portTickType
  theta_roundoff_trim_count :: "8 word"

section \<open>Single-precision arithmetic\<close>

text \<open>
  A value of IEEE 754 binary32, as an intermediate result: a finite real, an infinity
  or a NaN. The sign of a zero is not kept; it could matter only in a division by a
  negative zero, and the divisors below (a square root, a velocity tested positive, a
  curvature tested nonzero) are never one.
\<close>

datatype float32 = Finite real | PosInf | NegInf | NaN

text \<open>The largest finite value, and rounding to the nearest value of the format, ties
  to the even significand: 24 bits of significand, the spacing of the values around
  \<open>x\<close> being \<open>ulp32 x\<close>, which stops shrinking below \<open>2 ^ -126\<close> (gradual underflow).\<close>

definition FLT_MAX :: real where
  "FLT_MAX = (2 ^ 24 - 1) * 2 ^ 104"

definition round_half_even :: "real \<Rightarrow> int" where
  "round_half_even y =
     (if y - of_int \<lfloor>y\<rfloor> < 1 / 2 then \<lfloor>y\<rfloor>
      else if y - of_int \<lfloor>y\<rfloor> > 1 / 2 then \<lfloor>y\<rfloor> + 1
      else if even \<lfloor>y\<rfloor> then \<lfloor>y\<rfloor> else \<lfloor>y\<rfloor> + 1)"

definition ulp32 :: "real \<Rightarrow> real" where
  "ulp32 x = 2 powr of_int (max \<lfloor>log 2 \<bar>x\<bar>\<rfloor> (- 126) - 23)"

definition round32 :: "real \<Rightarrow> real" where
  "round32 x = (if x = 0 then 0 else of_int (round_half_even (x / ulp32 x)) * ulp32 x)"

text \<open>The result of an operation: the exact result rounded, or an infinity where that
  is beyond the largest finite value.\<close>

definition fround :: "real \<Rightarrow> float32" where
  "fround x =
     (if round32 x > FLT_MAX then PosInf
      else if round32 x < - FLT_MAX then NegInf
      else Finite (round32 x))"

text \<open>The operations the two computations use, with the special cases of IEEE 754.
  \<open>fless\<close> is \<open><\<close>, false whenever a NaN is compared.\<close>

fun fneg :: "float32 \<Rightarrow> float32" where
  "fneg (Finite a) = Finite (- a)"
| "fneg PosInf = NegInf"
| "fneg NegInf = PosInf"
| "fneg NaN = NaN"

fun fabs :: "float32 \<Rightarrow> float32" where
  "fabs (Finite a) = Finite \<bar>a\<bar>"
| "fabs PosInf = PosInf"
| "fabs NegInf = PosInf"
| "fabs NaN = NaN"

fun fadd :: "float32 \<Rightarrow> float32 \<Rightarrow> float32" where
  "fadd (Finite a) (Finite b) = fround (a + b)"
| "fadd NaN y = NaN"
| "fadd x NaN = NaN"
| "fadd PosInf NegInf = NaN"
| "fadd NegInf PosInf = NaN"
| "fadd PosInf y = PosInf"
| "fadd x PosInf = PosInf"
| "fadd NegInf y = NegInf"
| "fadd x NegInf = NegInf"

definition fsub :: "float32 \<Rightarrow> float32 \<Rightarrow> float32" where
  "fsub x y = fadd x (fneg y)"

fun fmul :: "float32 \<Rightarrow> float32 \<Rightarrow> float32" where
  "fmul (Finite a) (Finite b) = fround (a * b)"
| "fmul NaN y = NaN"
| "fmul x NaN = NaN"
| "fmul (Finite a) PosInf = (if a = 0 then NaN else if a > 0 then PosInf else NegInf)"
| "fmul (Finite a) NegInf = (if a = 0 then NaN else if a > 0 then NegInf else PosInf)"
| "fmul PosInf (Finite b) = (if b = 0 then NaN else if b > 0 then PosInf else NegInf)"
| "fmul NegInf (Finite b) = (if b = 0 then NaN else if b > 0 then NegInf else PosInf)"
| "fmul PosInf PosInf = PosInf"
| "fmul PosInf NegInf = NegInf"
| "fmul NegInf PosInf = NegInf"
| "fmul NegInf NegInf = PosInf"

fun fdiv :: "float32 \<Rightarrow> float32 \<Rightarrow> float32" where
  "fdiv (Finite a) (Finite b) =
     (if b = 0 then (if a = 0 then NaN else if a > 0 then PosInf else NegInf)
      else fround (a / b))"
| "fdiv NaN y = NaN"
| "fdiv x NaN = NaN"
| "fdiv (Finite a) y = Finite 0"
| "fdiv PosInf (Finite b) = (if b \<ge> 0 then PosInf else NegInf)"
| "fdiv NegInf (Finite b) = (if b \<ge> 0 then NegInf else PosInf)"
| "fdiv x y = NaN"

fun fsqrt :: "float32 \<Rightarrow> float32" where
  "fsqrt (Finite a) = (if a < 0 then NaN else fround (sqrt a))"
| "fsqrt PosInf = PosInf"
| "fsqrt NegInf = NaN"
| "fsqrt NaN = NaN"

fun fceil :: "float32 \<Rightarrow> float32" where
  "fceil (Finite a) = Finite (of_int \<lceil>a\<rceil>)"
| "fceil x = x"

fun fless :: "float32 \<Rightarrow> float32 \<Rightarrow> bool" where
  "fless (Finite a) (Finite b) = (a < b)"
| "fless NaN y = False"
| "fless x NaN = False"
| "fless x NegInf = False"
| "fless NegInf y = True"
| "fless PosInf y = False"
| "fless x PosInf = True"

text \<open>Not negative and not a NaN.\<close>

definition fnonneg :: "float32 \<Rightarrow> bool" where
  "fnonneg x = (case x of Finite a \<Rightarrow> 0 \<le> a | PosInf \<Rightarrow> True | NegInf \<Rightarrow> False | NaN \<Rightarrow> False)"

section \<open>Object manager\<close>

text \<open>\<open>PathSegmentDescriptorInstGet\<close> copies instance \<open>instId\<close> into the caller's buffer.
  For an id with no instance it returns an error code, which no caller in this file
  looks at, and the buffer keeps what it held. \<open>UAVObjGetNumInstances\<close> is the number
  of instances, which fits its 16-bit result.\<close>

definition PathSegmentDescriptorInstGet ::
  "PathSegmentDescriptorData list \<Rightarrow> 16 word \<Rightarrow> PathSegmentDescriptorData \<Rightarrow> PathSegmentDescriptorData" where
  "PathSegmentDescriptorInstGet insts instId buf =
     (if unat instId < length insts then insts ! unat instId else buf)"

definition UAVObjGetNumInstances :: "PathSegmentDescriptorData list \<Rightarrow> nat" where
  "UAVObjGetNumInstances insts = length insts"

definition PathManagerStatusSet :: "pm_state \<Rightarrow> pm_state" where
  "PathManagerStatusSet st = st\<lparr>PathManagerStatus_object := pathManagerStatus st\<rparr>"

section \<open>advanceSegment\<close>

text \<open>Lines 355 to 358: the measured angle, moved by a full turn when its sign is
  against the curvature's.\<close>

definition wrapAngle :: "externals \<Rightarrow> real \<Rightarrow> real \<Rightarrow> real" where
  "wrapAngle ext curvature tmpAngle_D =
     (if SIGN ext curvature * tmpAngle_D < 0 then tmpAngle_D + 360 * SIGN ext curvature
      else tmpAngle_D)"

text \<open>Lines 337 to 372: centre and angular distance of the segment just loaded.\<close>

definition advanceSegment_arc :: "externals \<Rightarrow> pm_state \<Rightarrow> pm_state" where
  "advanceSegment_arc ext st =
     (let cur = pathSegmentDescriptor_current st; c = PathCurvature cur in
      if c \<noteq> 0 then
        (let found = find_arc_center ext (NE (Position (previousLocus st))) (NE (SwitchingLocus cur))
                       (1 / c) (c > 0) (ArcRank cur = ARCRANK_MINOR) (arcCenter_NE st);
             st1 = st\<lparr>arc_has_center := fst found, arcCenter_NE := snd found\<rparr>
         in case fst found of
              CENTER_FOUND \<Rightarrow>
                (let tmpAngle_D = measure_arc_rad ext (NE (Position (previousLocus st1)))
                                    (NE (SwitchingLocus cur)) (arcCenter_NE st1) * RAD2DEG ext
                 in st1\<lparr>oldPosition_NE := NE (Position (previousLocus st1)),
                        angularDistanceToComplete_D :=
                          SIGN ext c * real (NumberOfOrbits cur) * 360 + wrapAngle ext c tmpAngle_D\<rparr>)
            | _ \<Rightarrow> st1\<lparr>angularDistanceToComplete_D := 0\<rparr>)
      else st\<lparr>angularDistanceToComplete_D := 0\<rparr>)"

text \<open>Lines 375 to 381: the length of the segment, in single precision. \<open>powf(x, 2)\<close> is
  taken as the product of \<open>x\<close> with itself, rounded, and \<open>sqrtf\<close> as the square root,
  rounded.\<close>

definition advanceSegment_length ::
  "externals \<Rightarrow> PathSegmentDescriptorData \<Rightarrow> pm_state \<Rightarrow> float32" where
  "advanceSegment_length ext past st =
     (let cur = pathSegmentDescriptor_current st in
      if PathCurvature cur = 0 then
        (let dN = fsub (Finite (fst (SwitchingLocus cur))) (Finite (fst (SwitchingLocus past)));
             dE = fsub (Finite (fst (snd (SwitchingLocus cur))))
                       (Finite (fst (snd (SwitchingLocus past))))
         in fsqrt (fadd (fmul dN dN) (fmul dE dE)))
      else fdiv (fmul (Finite (angularDistanceToComplete_D st)) (Finite (DEG2RAD ext)))
                (Finite (PathCurvature cur)))"

text \<open>Modelled from the spec: \<open>bound_min_max\<close> of misc_math, which is not among the
  sources; the spec has the timeout "clamped to [0, 65535]".\<close>

definition bound_min_max :: "float32 \<Rightarrow> float32 \<Rightarrow> float32 \<Rightarrow> float32" where
  "bound_min_max val lo hi = (if fless val lo then lo else if fless hi val then hi else val)"

text \<open>The conversion of a float to \<open>uint16_t\<close> in the assignment to \<open>Timeout\<close>: the
  fraction is dropped. C leaves the conversion of an infinity or a NaN undefined; the
  clamp gives neither an infinity nor, as the length is never a NaN, a NaN.\<close>

definition float_to_uint16 :: "float32 \<Rightarrow> 16 word" where
  "float_to_uint16 x =
     (case x of
        Finite a \<Rightarrow> word_of_int (if 0 \<le> a then \<lfloor>a\<rfloor> else \<lceil>a\<rceil>)
      | PosInf \<Rightarrow> 0 | NegInf \<Rightarrow> 0 | NaN \<Rightarrow> 0)"

text \<open>Lines 383 to 386.\<close>

definition advanceSegment_timeout :: "float32 \<Rightarrow> real \<Rightarrow> 16 word" where
  "advanceSegment_timeout s finalVelocity =
     (if finalVelocity > 0
      then float_to_uint16
             (bound_min_max (fceil (fdiv (fabs s) (Finite finalVelocity))) (Finite 0) (Finite 65535))
      else 65535)"

text \<open>Lines 318 to 319: the segment being left, read into a local.\<close>

definition advanceSegment_past :: "externals \<Rightarrow> pm_state \<Rightarrow> PathSegmentDescriptorData" where
  "advanceSegment_past ext st =
     PathSegmentDescriptorInstGet (instances st) (ActiveSegment (pathManagerStatus st))
       (uninitialised ext)"

text \<open>Lines 321 to 335: the previous locus, the index, the next segment.\<close>

definition advanceSegment_load :: "externals \<Rightarrow> pm_state \<Rightarrow> pm_state" where
  "advanceSegment_load ext st =
     (let past = advanceSegment_past ext st;
          st1 = st\<lparr>previousLocus := \<lparr>Position = SwitchingLocus past, Velocity = FinalVelocity past\<rparr>\<rparr>;
          st2 = PathManagerStatusSet
                  (st1\<lparr>pathManagerStatus := (pathManagerStatus st1)
                         \<lparr>ActiveSegment := ActiveSegment (pathManagerStatus st1) + 1,
                          Status := STATUS_INPROGRESS\<rparr>\<rparr>);
          st3 = st2\<lparr>pathSegmentDescriptor_current :=
                      PathSegmentDescriptorInstGet (instances st2) (ActiveSegment (pathManagerStatus st2))
                        (pathSegmentDescriptor_current st2)\<rparr>
      in st3\<lparr>angularDistanceCompleted_D := 0\<rparr>)"

text \<open>Lines 374 to 392: the timeout, published, and the timer; \<open>now\<close> is what
  \<open>xTaskGetTickCount\<close> returns.\<close>

definition advanceSegment_finish ::
  "externals \<Rightarrow> portTickType \<Rightarrow> PathSegmentDescriptorData \<Rightarrow> pm_state \<Rightarrow> pm_state" where
  "advanceSegment_finish ext now past st =
     (let s = advanceSegment_length ext past st;
          st1 = st\<lparr>pathManagerStatus := (pathManagerStatus st)
                     \<lparr>Timeout := advanceSegment_timeout s
                                   (FinalVelocity (pathSegmentDescriptor_current st))\<rparr>\<rparr>
      in (PathManagerStatusSet st1)\<lparr>segmentTimer := now\<rparr>)"

text \<open>The whole routine.\<close>

definition advanceSegment :: "externals \<Rightarrow> portTickType \<Rightarrow> pm_state \<Rightarrow> pm_state" where
  "advanceSegment ext now st =
     advanceSegment_finish ext now (advanceSegment_past ext st)
       (advanceSegment_arc ext (advanceSegment_load ext st))"

section \<open>checkGoalCondition and checkOvershoot\<close>

text \<open>\<open>pos\<close> is the North/East pair that \<open>PositionActualGet\<close> delivers. The sum
  \<open>ActiveSegment + 1\<close> of line 407 is computed in \<open>int\<close> and cannot wrap.\<close>

definition checkGoalCondition :: "externals \<Rightarrow> vec2 \<Rightarrow> pm_state \<Rightarrow> bool" where
  "checkGoalCondition ext pos st =
     (case SwitchingStrategy (pathManagerSettings st) of
        SWITCHINGSTRATEGY_HALFPLANE \<Rightarrow>
          if unat (ActiveSegment (pathManagerStatus st)) + 1 < UAVObjGetNumInstances (instances st)
          then half_plane_goal_test ext pos (angularDistanceCompleted_D st)
                 (angularDistanceToComplete_D st) (Position (previousLocus st))
                 (pathSegmentDescriptor_current st)
                 (PathSegmentDescriptorInstGet (instances st)
                    (ActiveSegment (pathManagerStatus st) + 1) (uninitialised ext))
                 (HalfPlaneAdvanceTiming (pathManagerSettings st))
                 (BestClimbRateSpeed (fixedWingAirspeeds st))
          else False
      | SWITCHINGSTRATEGY_BBALL \<Rightarrow>
          b_ball_goal_test ext pos (SwitchingLocus (pathSegmentDescriptor_current st))
            (BBallThresholdDistance (pathManagerSettings st))
      | SWITCHINGSTRATEGY_OTHER \<Rightarrow> False)"

text \<open>Modelled from the spec: \<open>VectorMagnitude\<close> of CoordinateConversions, which is not
  among the sources; the spec has the monitor compute "the unit direction vector"
  by dividing by it, so it is the Euclidean length, here in single precision.\<close>

definition VectorMagnitude :: "float32 \<times> float32 \<times> float32 \<Rightarrow> float32" where
  "VectorMagnitude v =
     fsqrt (fadd (fadd (fmul (fst v) (fst v)) (fmul (fst (snd v)) (fst (snd v))))
                 (fmul (snd (snd v)) (snd (snd v))))"

text \<open>Lines 453 to 463: the direction of the path and the target, moved along it by five
  seconds of flight.\<close>

definition overshootDirection :: "pm_state \<Rightarrow> float32 \<times> float32 \<times> float32" where
  "overshootDirection st =
     (let c = NE (SwitchingLocus (pathSegmentDescriptor_current st));
          r = Position (previousLocus st)
      in (fsub (Finite (fst c)) (Finite (fst r)),
          fsub (Finite (snd c)) (Finite (fst (snd r))),
          Finite 0))"

definition overshootTarget :: "pm_state \<Rightarrow> float32 \<times> float32" where
  "overshootTarget st =
     (let c = NE (SwitchingLocus (pathSegmentDescriptor_current st));
          q = overshootDirection st;
          q_mag = VectorMagnitude q;
          V = Finite (BestClimbRateSpeed (fixedWingAirspeeds st))
      in (fadd (Finite (fst c)) (fmul (fmul (fdiv (fst q) q_mag) V) (Finite 5)),
          fadd (Finite (snd c)) (fmul (fmul (fdiv (fst (snd q)) q_mag) V) (Finite 5))))"

text \<open>Line 466: the dot product that decides.\<close>

definition overshootDot :: "vec2 \<Rightarrow> pm_state \<Rightarrow> float32" where
  "overshootDot p st =
     (let c = overshootTarget st; q = overshootDirection st
      in fadd (fmul (fsub (Finite (fst p)) (fst c)) (fst q))
              (fmul (fsub (Finite (snd p)) (snd c)) (fst (snd q))))"

definition checkOvershoot :: "vec2 \<Rightarrow> pm_state \<Rightarrow> pm_state" where
  "checkOvershoot p st =
     (if PathCurvature (pathSegmentDescriptor_current st) = 0 then
        (if fless (Finite 0) (overshootDot p st)
         then (PathManagerStatusSet
                 (st\<lparr>pathManagerStatus := (pathManagerStatus st)\<lparr>Status := STATUS_OVERSHOOT\<rparr>\<rparr>))
              \<lparr>alarm := ALARM_CRITICAL\<rparr>
         else st)
      else st)"

section \<open>One pass of the main loop of pathManagerTask\<close>

text \<open>What one pass reads from outside: the flight mode or the planner's status, the
  position (one value for the reads of a pass), the tick count at its two reads, and
  what the settings callback and the other tasks wrote while the task was waiting.\<close>

record tick_input =
  flightMode :: flight_mode
  pathAvailability :: path_availability
  positionActual :: vec2
  tickCount_activation :: portTickType
  tickCount_advance :: portTickType
  written_settings :: "PathManagerSettingsData option"
  written_airspeeds :: "FixedWingAirspeedsData option"
  written_instances :: "PathSegmentDescriptorData list option"

definition settingsUpdated :: "tick_input \<Rightarrow> pm_state \<Rightarrow> pm_state" where
  "settingsUpdated inp st =
     (let st1 = (case written_settings inp of None \<Rightarrow> st | Some v \<Rightarrow> st\<lparr>pathManagerSettings := v\<rparr>);
          st2 = (case written_airspeeds inp of None \<Rightarrow> st1 | Some v \<Rightarrow> st1\<lparr>fixedWingAirspeeds := v\<rparr>)
      in case written_instances inp of None \<Rightarrow> st2 | Some v \<Rightarrow> st2\<lparr>instances := v\<rparr>)"

text \<open>Line 178: \<open>vTaskDelayUntil\<close> moves \<open>lastSysTime\<close> on by the period.\<close>

definition UPDATE_RATE_MS :: portTickType where
  "UPDATE_RATE_MS = 100"

definition OVERSHOOT_TIMER_MS :: portTickType where
  "OVERSHOOT_TIMER_MS = 1000"

definition ANGULAR_PROXIMITY_THRESHOLD :: real where
  "ANGULAR_PROXIMITY_THRESHOLD = 30"

definition waitPeriod :: "externals \<Rightarrow> pm_state \<Rightarrow> pm_state" where
  "waitPeriod ext st = st\<lparr>lastSysTime := lastSysTime st + UPDATE_RATE_MS * portTICK_RATE_MS ext\<rparr>"

text \<open>Lines 180 to 239, in both compilations. The first component is False where the
  source leaves the pass with \<open>continue\<close>.\<close>

definition idleGuidance :: "pm_state \<Rightarrow> bool \<times> pm_state" where
  "idleGuidance st = (False, st\<lparr>pathplanner_active := False, guidanceType := NOMANAGER\<rparr>)"

definition selectGuidance :: "externals \<Rightarrow> tick_input \<Rightarrow> pm_state \<Rightarrow> bool \<times> pm_state" where
  "selectGuidance ext inp st =
     (if \<not> PATH_PLANNER ext then
        (case flightMode inp of
           FLIGHTMODE_RETURNTOHOME \<Rightarrow>
             (True, if guidanceType st \<noteq> RETURNHOME
                    then st\<lparr>guidanceType := RETURNHOME, pathplanner_active := False,
                            instances := simple_return_to_home ext (instances st)\<rparr>
                    else st)
         | FLIGHTMODE_POSITIONHOLD \<Rightarrow>
             (True, if guidanceType st \<noteq> HOLDPOSITION
                    then st\<lparr>guidanceType := HOLDPOSITION, pathplanner_active := False,
                            instances := simple_hold_position ext (instances st)\<rparr>
                    else st)
         | FLIGHTMODE_PATHPLANNER \<Rightarrow>
             (True, if guidanceType st \<noteq> PATHPLANNER
                    then st\<lparr>guidanceType := PATHPLANNER, pathplanner_active := False,
                            instances := example_program ext (instances st)\<rparr>
                    else st)
         | FLIGHTMODE_OTHER \<Rightarrow> idleGuidance st)
      else
        (if pathAvailability inp = PATHAVAILABILITY_PATHREADY
         then (True, if guidanceType st \<noteq> PATHPLANNER
                     then st\<lparr>guidanceType := PATHPLANNER, pathplanner_active := False\<rparr>
                     else st)
         else idleGuidance st))"

text \<open>Line 257: the test of the trim counter, on the value before the increment.\<close>

definition roundoffTrimDue :: "pm_state \<Rightarrow> bool" where
  "roundoffTrimDue st = (theta_roundoff_trim_count st AND 0x8F = 0)"

text \<open>Lines 258 to 263: the correction against the angle measured from the segment's
  start.\<close>

definition roundoffTrim :: "externals \<Rightarrow> vec2 \<Rightarrow> pm_state \<Rightarrow> pm_state" where
  "roundoffTrim ext newPosition_NE st =
     (let st1 = st\<lparr>theta_roundoff_trim_count := 0\<rparr>;
          referenceTheta_D = measure_arc_rad ext (NE (Position (previousLocus st1))) newPosition_NE
                               (arcCenter_NE st1) * RAD2DEG ext;
          error_D = circular_modulus_deg ext (referenceTheta_D - angularDistanceCompleted_D st1)
      in st1\<lparr>angularDistanceCompleted_D := angularDistanceCompleted_D st1 + error_D\<rparr>)"

text \<open>The condition under which lines 249 to 264 run.\<close>

definition arcTracked :: "pm_state \<Rightarrow> bool" where
  "arcTracked st \<longleftrightarrow>
     PathCurvature (pathSegmentDescriptor_current st) \<noteq> 0 \<and> arc_has_center st = CENTER_FOUND"

text \<open>Lines 249 to 252: the angle swept since the last pass is added.\<close>

definition accumulateArc :: "externals \<Rightarrow> vec2 \<Rightarrow> pm_state \<Rightarrow> pm_state" where
  "accumulateArc ext newPosition_NE st =
     st\<lparr>angularDistanceCompleted_D := angularDistanceCompleted_D st +
          measure_arc_rad ext (oldPosition_NE st) newPosition_NE (arcCenter_NE st) * RAD2DEG ext,
        oldPosition_NE := newPosition_NE\<rparr>"

text \<open>Lines 244 to 267. The counter is incremented after the test, whatever the test
  gives, and reset where the correction runs.\<close>

definition updateArcMeasure :: "externals \<Rightarrow> vec2 \<Rightarrow> pm_state \<Rightarrow> pm_state" where
  "updateArcMeasure ext newPosition_NE st =
     (if PathCurvature (pathSegmentDescriptor_current st) \<noteq> 0 then
        (if arc_has_center st = CENTER_FOUND then
           (let st1 = accumulateArc ext newPosition_NE st
            in if roundoffTrimDue st1
               then roundoffTrim ext newPosition_NE
                      (st1\<lparr>theta_roundoff_trim_count := theta_roundoff_trim_count st1 + 1\<rparr>)
               else st1\<lparr>theta_roundoff_trim_count := theta_roundoff_trim_count st1 + 1\<rparr>)
         else st)
      else st)"

text \<open>Line 273: the gate before the goal test, and lines 273 to 274.\<close>

definition goalCheckDue :: "externals \<Rightarrow> pm_state \<Rightarrow> bool" where
  "goalCheckDue ext st \<longleftrightarrow>
     SIGN ext (PathCurvature (pathSegmentDescriptor_current st)) *
       (angularDistanceToComplete_D st - angularDistanceCompleted_D st) < ANGULAR_PROXIMITY_THRESHOLD"

definition goalFlag :: "externals \<Rightarrow> vec2 \<Rightarrow> pm_state \<Rightarrow> bool" where
  "goalFlag ext pos st = (if goalCheckDue ext st then checkGoalCondition ext pos st else False)"

text \<open>Lines 278 to 290: the first pass after a program was loaded.\<close>

definition activate :: "portTickType \<Rightarrow> bool \<Rightarrow> pm_state \<Rightarrow> bool \<times> pm_state" where
  "activate now advanceSegment_flag st =
     (if pathplanner_active st = False then
        (True, (PathManagerStatusSet
                  (st\<lparr>pathManagerStatus := (pathManagerStatus st)
                         \<lparr>ActiveSegment := 0,
                          PathCounter := PathCounter (pathManagerStatus st) + 1,
                          Status := STATUS_INPROGRESS\<rparr>\<rparr>))
               \<lparr>pathplanner_active := True, segmentTimer := now\<rparr>)
      else (advanceSegment_flag, st))"

text \<open>Lines 294 to 307. The conditions of the two \<open>else if\<close> first, then the branch
  the chain takes, then what the branch does.\<close>

definition segmentTimedOut :: "externals \<Rightarrow> pm_state \<Rightarrow> bool" where
  "segmentTimedOut ext st \<longleftrightarrow>
     lastSysTime st - segmentTimer st >
       ucast (Timeout (pathManagerStatus st)) * 1000 * portTICK_RATE_MS ext"

definition overshootCheckDue :: "externals \<Rightarrow> pm_state \<Rightarrow> bool" where
  "overshootCheckDue ext st \<longleftrightarrow>
     lastSysTime st - overshootTimer st > OVERSHOOT_TIMER_MS * portTICK_RATE_MS ext"

datatype tick_branch = BRANCH_ADVANCE | BRANCH_TIMEDOUT | BRANCH_OVERSHOOT | BRANCH_NONE

definition tickBranch :: "externals \<Rightarrow> bool \<Rightarrow> pm_state \<Rightarrow> tick_branch" where
  "tickBranch ext advanceSegment_flag st =
     (if advanceSegment_flag then BRANCH_ADVANCE
      else if segmentTimedOut ext st then BRANCH_TIMEDOUT
      else if overshootCheckDue ext st then BRANCH_OVERSHOOT
      else BRANCH_NONE)"

definition flagTimedOut :: "pm_state \<Rightarrow> pm_state" where
  "flagTimedOut st =
     PathManagerStatusSet (st\<lparr>pathManagerStatus := (pathManagerStatus st)\<lparr>Status := STATUS_TIMEDOUT\<rparr>\<rparr>)"

definition overshootPass :: "vec2 \<Rightarrow> pm_state \<Rightarrow> pm_state" where
  "overshootPass pos st = (checkOvershoot pos st)\<lparr>overshootTimer := lastSysTime st\<rparr>"

definition dispatch :: "externals \<Rightarrow> tick_input \<Rightarrow> bool \<Rightarrow> pm_state \<Rightarrow> pm_state" where
  "dispatch ext inp advanceSegment_flag st =
     (case tickBranch ext advanceSegment_flag st of
        BRANCH_ADVANCE \<Rightarrow> advanceSegment ext (tickCount_advance inp) st
      | BRANCH_TIMEDOUT \<Rightarrow> flagTimedOut st
      | BRANCH_OVERSHOOT \<Rightarrow> overshootPass (positionActual inp) st
      | BRANCH_NONE \<Rightarrow> st)"

text \<open>Lines 273 to 307, from the state the arc tracker leaves; the part of a pass after
  the mode selection; and the pass.\<close>

definition passTail :: "externals \<Rightarrow> tick_input \<Rightarrow> pm_state \<Rightarrow> pm_state" where
  "passTail ext inp st =
     (let act = activate (tickCount_activation inp) (goalFlag ext (positionActual inp) st) st
      in dispatch ext inp (fst act) (snd act))"

definition guidancePass :: "externals \<Rightarrow> tick_input \<Rightarrow> pm_state \<Rightarrow> pm_state" where
  "guidancePass ext inp st = passTail ext inp (updateArcMeasure ext (positionActual inp) st)"

definition passActive :: "externals \<Rightarrow> tick_input \<Rightarrow> pm_state \<Rightarrow> bool" where
  "passActive ext inp st = fst (selectGuidance ext inp (waitPeriod ext (settingsUpdated inp st)))"

definition passState :: "externals \<Rightarrow> tick_input \<Rightarrow> pm_state \<Rightarrow> pm_state" where
  "passState ext inp st = snd (selectGuidance ext inp (waitPeriod ext (settingsUpdated inp st)))"

definition pathManagerTask_tick :: "externals \<Rightarrow> tick_input \<Rightarrow> pm_state \<Rightarrow> pm_state" where
  "pathManagerTask_tick ext inp st =
     (if passActive ext inp st then guidancePass ext inp (passState ext inp st)
      else passState ext inp st)"

text \<open>The loop runs for ever; a run is the list of what its passes read.\<close>

fun pathManagerTask_loop :: "externals \<Rightarrow> tick_input list \<Rightarrow> pm_state \<Rightarrow> pm_state" where
  "pathManagerTask_loop ext [] st = st"
| "pathManagerTask_loop ext (inp # inps) st =
     pathManagerTask_loop ext inps (pathManagerTask_tick ext inp st)"

text \<open>The state when the loop is entered: the statics as initialised (zero where the
  source gives no initialiser), the settings as \<open>settingsUpdated(NULL)\<close> loads them,
  \<open>previousLocus\<close> as \<open>PathManagerInitialize\<close> clears it, and the locals of lines 167
  to 172, with \<open>t0\<close> and \<open>t1\<close> the tick counts read at lines 170 and 171.\<close>

definition pathManagerTask_start ::
  "externals \<Rightarrow> portTickType \<Rightarrow> portTickType \<Rightarrow> PathSegmentDescriptorData list
     \<Rightarrow> PathManagerStatusData
     \<Rightarrow> PathManagerSettingsData \<Rightarrow> FixedWingAirspeedsData \<Rightarrow> pm_state" where
  "pathManagerTask_start ext t0 t1 insts obj settings airspeeds =
     \<lparr>instances = insts,
      PathManagerStatus_object = obj,
      alarm = ALARM_CLEAR,
      fixedWingAirspeeds = airspeeds,
      pathManagerSettings = settings,
      pathManagerStatus = \<lparr>ActiveSegment = 0, PathCounter = 0, Status = zero_status ext, Timeout = 0\<rparr>,
      pathSegmentDescriptor_current =
        \<lparr>SwitchingLocus = (0, 0, 0), FinalVelocity = 0, PathCurvature = 0, NumberOfOrbits = 0,
         ArcRank = zero_rank ext\<rparr>,
      segmentTimer = 0,
      angularDistanceToComplete_D = 0,
      angularDistanceCompleted_D = 0,
      oldPosition_NE = (0, 0),
      arcCenter_NE = (0, 0),
      guidanceType = NOMANAGER,
      arc_has_center = INSUFFICIENT_RADIUS,
      previousLocus = \<lparr>Position = (0, 0, 0), Velocity = 0\<rparr>,
      pathplanner_active = False,
      lastSysTime = t0,
      overshootTimer = t1,
      theta_roundoff_trim_count = 0\<rparr>"

text \<open>Whether lines 249 to 264 run in a pass: it gets past the mode selection, on an arc
  with a centre.\<close>

definition passTracksArc :: "externals \<Rightarrow> tick_input \<Rightarrow> pm_state \<Rightarrow> bool" where
  "passTracksArc ext inp st \<longleftrightarrow> passActive ext inp st \<and> arcTracked (passState ext inp st)"

text \<open>The state on which a pass evaluates the gate of line 273.\<close>

definition gateState :: "externals \<Rightarrow> tick_input \<Rightarrow> pm_state \<Rightarrow> pm_state" where
  "gateState ext inp st = updateArcMeasure ext (positionActual inp) (passState ext inp st)"

text \<open>The flag and the state with which a pass reaches the chain of lines 294 to 307,
  and the branch it takes there.\<close>

definition dispatchFlag :: "externals \<Rightarrow> tick_input \<Rightarrow> pm_state \<Rightarrow> bool" where
  "dispatchFlag ext inp st =
     fst (activate (tickCount_activation inp)
            (goalFlag ext (positionActual inp) (gateState ext inp st)) (gateState ext inp st))"

definition dispatchState :: "externals \<Rightarrow> tick_input \<Rightarrow> pm_state \<Rightarrow> pm_state" where
  "dispatchState ext inp st =
     snd (activate (tickCount_activation inp)
            (goalFlag ext (positionActual inp) (gateState ext inp st)) (gateState ext inp st))"

definition passBranch :: "externals \<Rightarrow> tick_input \<Rightarrow> pm_state \<Rightarrow> tick_branch" where
  "passBranch ext inp st = tickBranch ext (dispatchFlag ext inp st) (dispatchState ext inp st)"

text \<open>Off a tracked arc, that is on a line or on an arc whose centre was not found, both
  angular distances are 0. This holds when the task starts, advanceSegment establishes
  it and nothing else in a pass touches it.\<close>

definition untrackedAtZero :: "pm_state \<Rightarrow> bool" where
  "untrackedAtZero st \<longleftrightarrow>
     arcTracked st \<or> (angularDistanceToComplete_D st = 0 \<and> angularDistanceCompleted_D st = 0)"

section \<open>The path length of the spec\<close>

text \<open>The length of the segment a state is on, in the words of the spec: the distance
  between the previous and the new switching locus for a line, the angular distance
  in radians over the curvature for an arc. First in exact arithmetic, then with
  every operation in single precision, in the order of the source.\<close>

definition pathLength :: "externals \<Rightarrow> pm_state \<Rightarrow> real" where
  "pathLength ext st =
     (let prev = NE (Position (previousLocus st));
          new = NE (SwitchingLocus (pathSegmentDescriptor_current st))
      in if PathCurvature (pathSegmentDescriptor_current st) = 0
         then sqrt ((fst new - fst prev)\<^sup>2 + (snd new - snd prev)\<^sup>2)
         else angularDistanceToComplete_D st * DEG2RAD ext
                / PathCurvature (pathSegmentDescriptor_current st))"

definition pathLength32 :: "externals \<Rightarrow> pm_state \<Rightarrow> float32" where
  "pathLength32 ext st =
     (let prev = NE (Position (previousLocus st));
          new = NE (SwitchingLocus (pathSegmentDescriptor_current st));
          dN = fsub (Finite (fst new)) (Finite (fst prev));
          dE = fsub (Finite (snd new)) (Finite (snd prev))
      in if PathCurvature (pathSegmentDescriptor_current st) = 0
         then fsqrt (fadd (fmul dN dN) (fmul dE dE))
         else fdiv (fmul (Finite (angularDistanceToComplete_D st)) (Finite (DEG2RAD ext)))
                   (Finite (PathCurvature (pathSegmentDescriptor_current st))))"

section \<open>Concrete scenarios\<close>

text \<open>An instance of the externals for evaluating the code on concrete inputs. The
  geometry routines are stand-ins that are right for the quarter circles used below:
  the centre of the arc from \<open>s\<close> to \<open>e\<close> is put at \<open>(fst e, snd s)\<close> unless the chord is
  longer than the diameter, and every measured arc is a quarter turn. The ball test
  is the inclusive distance test, the half-plane test never fires, the program
  loaders leave the instances as they are. Two programs: a line from (0,0) to (100,0)
  flown at 10, and a quarter circle of radius 100 from (0,0) to (100,100) with final
  velocity 0.\<close>

definition example_externals :: externals where
  "example_externals =
     \<lparr>find_arc_center = (\<lambda>s e r clockwise minor old.
          if (fst e - fst s)\<^sup>2 + (snd e - snd s)\<^sup>2 > (2 * r)\<^sup>2 then (INSUFFICIENT_RADIUS, old)
          else (CENTER_FOUND, (fst e, snd s))),
      measure_arc_rad = (\<lambda>a b c. pi / 2),
      circular_modulus_deg = (\<lambda>x. x),
      SIGN = (\<lambda>x. if x < 0 then -1 else 1),
      half_plane_goal_test = (\<lambda>p done todo prev cur fut timing speed. False),
      b_ball_goal_test = (\<lambda>p c d. (fst p - fst c)\<^sup>2 + (snd p - fst (snd c))\<^sup>2 \<le> d\<^sup>2),
      RAD2DEG = 180 / pi,
      DEG2RAD = pi / 180,
      portTICK_RATE_MS = 1,
      simple_return_to_home = (\<lambda>insts. insts),
      simple_hold_position = (\<lambda>insts. insts),
      example_program = (\<lambda>insts. insts),
      PATH_PLANNER = False,
      uninitialised = \<lparr>SwitchingLocus = (7, 7, 7), FinalVelocity = 7, PathCurvature = 7,
                       NumberOfOrbits = 7, ArcRank = ARCRANK_MAJOR\<rparr>,
      zero_status = STATUS_INPROGRESS,
      zero_rank = ARCRANK_MINOR\<rparr>"

definition line_program :: "PathSegmentDescriptorData list" where
  "line_program =
     [\<lparr>SwitchingLocus = (0, 0, 0), FinalVelocity = 10, PathCurvature = 0, NumberOfOrbits = 0,
       ArcRank = ARCRANK_MINOR\<rparr>,
      \<lparr>SwitchingLocus = (100, 0, 0), FinalVelocity = 10, PathCurvature = 0, NumberOfOrbits = 0,
       ArcRank = ARCRANK_MINOR\<rparr>]"

definition arc_program :: "PathSegmentDescriptorData list" where
  "arc_program =
     [\<lparr>SwitchingLocus = (0, 0, 0), FinalVelocity = 10, PathCurvature = 0, NumberOfOrbits = 0,
       ArcRank = ARCRANK_MINOR\<rparr>,
      \<lparr>SwitchingLocus = (100, 100, 0), FinalVelocity = 0, PathCurvature = 1 / 100, NumberOfOrbits = 0,
       ArcRank = ARCRANK_MINOR\<rparr>]"

text \<open>A third program: an arc of radius 100 from (0,0) to (300,0), whose chord is longer
  than the diameter.\<close>

definition wide_arc_program :: "PathSegmentDescriptorData list" where
  "wide_arc_program =
     [\<lparr>SwitchingLocus = (0, 0, 0), FinalVelocity = 10, PathCurvature = 0, NumberOfOrbits = 0,
       ArcRank = ARCRANK_MINOR\<rparr>,
      \<lparr>SwitchingLocus = (300, 0, 0), FinalVelocity = 10, PathCurvature = 1 / 100, NumberOfOrbits = 0,
       ArcRank = ARCRANK_MINOR\<rparr>]"

text \<open>A fourth program: a line from (0,0) to (7,0) flown at the float nearest to 0.7,
  which is \<open>11744051 / 2 ^ 24\<close>.\<close>

definition seven_tenths :: real where
  "seven_tenths = 11744051 / 16777216"

definition slow_line_program :: "PathSegmentDescriptorData list" where
  "slow_line_program =
     [\<lparr>SwitchingLocus = (0, 0, 0), FinalVelocity = seven_tenths, PathCurvature = 0,
       NumberOfOrbits = 0, ArcRank = ARCRANK_MINOR\<rparr>,
      \<lparr>SwitchingLocus = (7, 0, 0), FinalVelocity = seven_tenths, PathCurvature = 0,
       NumberOfOrbits = 0, ArcRank = ARCRANK_MINOR\<rparr>]"

definition example_settings :: PathManagerSettingsData where
  "example_settings = \<lparr>SwitchingStrategy = SWITCHINGSTRATEGY_BBALL, HalfPlaneAdvanceTiming = 0,
     BBallThresholdDistance = 1\<rparr>"

definition example_start :: "PathSegmentDescriptorData list \<Rightarrow> pm_state" where
  "example_start insts = pathManagerTask_start example_externals 0 0 insts
     \<lparr>ActiveSegment = 0, PathCounter = 0, Status = STATUS_INPROGRESS, Timeout = 0\<rparr>
     example_settings \<lparr>BestClimbRateSpeed = 10\<rparr>"

definition slow_start :: pm_state where
  "slow_start = pathManagerTask_start example_externals 0 0 slow_line_program
     \<lparr>ActiveSegment = 0, PathCounter = 0, Status = STATUS_INPROGRESS, Timeout = 0\<rparr>
     example_settings \<lparr>BestClimbRateSpeed = seven_tenths\<rparr>"

definition half_plane_start :: "PathSegmentDescriptorData list \<Rightarrow> pm_state" where
  "half_plane_start insts =
     (example_start insts)\<lparr>pathManagerSettings :=
        example_settings\<lparr>SwitchingStrategy := SWITCHINGSTRATEGY_HALFPLANE\<rparr>\<rparr>"

definition example_input :: "vec2 \<Rightarrow> tick_input" where
  "example_input pos = \<lparr>flightMode = FLIGHTMODE_PATHPLANNER, pathAvailability = PATHAVAILABILITY_PATHREADY,
     positionActual = pos, tickCount_activation = 0, tickCount_advance = 0,
     written_settings = None, written_airspeeds = None, written_instances = None\<rparr>"

text \<open>The states of a run on the line program in which the program is active and the
  descriptor of its last segment is the current one, with both angular distances 0.\<close>

definition on_last_line :: "pm_state \<Rightarrow> bool" where
  "on_last_line st \<longleftrightarrow>
     instances st = line_program \<and> pathManagerSettings st = example_settings \<and>
     pathSegmentDescriptor_current st = line_program ! 1 \<and>
     angularDistanceToComplete_D st = 0 \<and> angularDistanceCompleted_D st = 0 \<and>
     pathplanner_active st \<and> guidanceType st = PATHPLANNER"

text \<open>\<open>k\<close> passes with the vehicle resting at (100, 0), the target of the last segment of
  the line program.\<close>

definition resting_passes :: "nat \<Rightarrow> tick_input list" where
  "resting_passes k = replicate k (example_input (100, 0))"

section \<open>Properties\<close>

lemmas example_defs = example_externals_def line_program_def arc_program_def wide_arc_program_def
  slow_line_program_def example_settings_def example_start_def slow_start_def half_plane_start_def
  example_input_def pathManagerTask_start_def

lemmas advance_defs = advanceSegment_def advanceSegment_past_def advanceSegment_load_def
  advanceSegment_finish_def advanceSegment_arc_def advanceSegment_length_def
  advanceSegment_timeout_def PathManagerStatusSet_def PathSegmentDescriptorInstGet_def wrapAngle_def
  NE_def bound_min_max_def float_to_uint16_def fsub_def

lemmas tick_defs = pathManagerTask_tick_def passActive_def passState_def guidancePass_def
  passTail_def
  dispatch_def tickBranch_def segmentTimedOut_def overshootCheckDue_def flagTimedOut_def
  overshootPass_def activate_def goalFlag_def goalCheckDue_def updateArcMeasure_def
  accumulateArc_def roundoffTrimDue_def roundoffTrim_def selectGuidance_def idleGuidance_def
  waitPeriod_def settingsUpdated_def checkGoalCondition_def checkOvershoot_def UPDATE_RATE_MS_def
  OVERSHOOT_TIMER_MS_def ANGULAR_PROXIMITY_THRESHOLD_def UAVObjGetNumInstances_def


subsection \<open>Rounding to single precision\<close>

lemma round_half_even_of_int [simp]: "round_half_even (of_int m) = m"
  by (simp add: round_half_even_def)

lemma two_powr_neg: "2 powr of_int (- int j) = 1 / (2::real) ^ j"
  by (simp only: of_int_minus of_int_of_nat_eq powr_minus powr_realpow inverse_eq_divide
      zero_less_numeral)

lemma ulp32_eq:
  assumes "2 powr of_int e \<le> \<bar>x\<bar>" and "\<bar>x\<bar> < 2 powr of_int (e + 1)" and "- 126 \<le> e"
  shows "ulp32 x = 2 powr of_int (e - 23)"
proof -
  have "0 < \<bar>x\<bar>"
    using assms(1) by (smt (verit) powr_gt_zero)
  then have "\<lfloor>log 2 \<bar>x\<bar>\<rfloor> = e"
    using assms(1,2) by (simp add: floor_log_eq_powr_iff)
  then show ?thesis
    using assms(3) by (simp add: ulp32_def max_def)
qed

lemma ulp32_ge1:
  fixes k :: nat
  assumes "2 ^ k \<le> \<bar>x\<bar>" and "\<bar>x\<bar> < 2 ^ Suc k" and "k \<le> 23"
  shows "ulp32 x = 1 / 2 ^ (23 - k)"
proof -
  have "ulp32 x = 2 powr of_int (int k - 23)"
    using assms(1,2) by (intro ulp32_eq) (simp_all add: powr_realpow powr_add)
  also have "int k - 23 = - int (23 - k)"
    using assms(3) by simp
  finally show ?thesis
    by (simp only: two_powr_neg)
qed


lemma ulp32_lt1:
  fixes j :: nat
  assumes "1 / 2 ^ Suc j \<le> \<bar>x\<bar>" and "\<bar>x\<bar> < 1 / 2 ^ j" and "j \<le> 125"
  shows "ulp32 x = 1 / 2 ^ (24 + j)"
proof -
  have lo: "2 powr of_int (- int (Suc j)) \<le> \<bar>x\<bar>"
    using assms(1) by (simp only: two_powr_neg)
  have "- int (Suc j) + 1 = - int j"
    by simp
  then have hi: "\<bar>x\<bar> < 2 powr of_int (- int (Suc j) + 1)"
    using assms(2) by (simp only: two_powr_neg)
  have "ulp32 x = 2 powr of_int (- int (Suc j) - 23)"
    using lo hi assms(3) by (intro ulp32_eq) simp_all
  also have "- int (Suc j) - 23 = - int (24 + j)"
    by simp
  finally show ?thesis
    by (simp only: two_powr_neg)
qed

lemma round32_ge1:
  fixes k :: nat
  assumes "2 ^ k \<le> \<bar>x\<bar>" and "\<bar>x\<bar> < 2 ^ Suc k" and "k \<le> 23"
  shows "round32 x = of_int (round_half_even (x * 2 ^ (23 - k))) / 2 ^ (23 - k)"
proof -
  have "x \<noteq> 0"
    using assms(1) by (smt (verit) zero_less_power abs_zero)
  then show ?thesis
    by (simp add: round32_def ulp32_ge1 [OF assms])
qed

lemma round32_lt1:
  fixes j :: nat
  assumes "1 / 2 ^ Suc j \<le> \<bar>x\<bar>" and "\<bar>x\<bar> < 1 / 2 ^ j" and "j \<le> 125"
  shows "round32 x = of_int (round_half_even (x * 2 ^ (24 + j))) / 2 ^ (24 + j)"
proof -
  have "0 < 1 / (2::real) ^ Suc j"
    by simp
  then have "x \<noteq> 0"
    using assms(1) by linarith
  then show ?thesis
    by (simp add: round32_def ulp32_lt1 [OF assms])
qed

text \<open>Integers below \<open>2 ^ 24\<close> are floats.\<close>

lemma round32_of_int:
  assumes "\<bar>n\<bar> < 2 ^ 24"
  shows "round32 (of_int n) = of_int n"
proof (cases "n = 0")
  case True
  then show ?thesis by (simp add: round32_def)
next
  case False
  define x :: real where "x = of_int n"
  have pos: "1 \<le> \<bar>x\<bar>" and small: "\<bar>x\<bar> < 2 ^ 24"
    using False assms by (simp_all add: x_def flip: of_int_abs)
  define e where "e = \<lfloor>log 2 \<bar>x\<bar>\<rfloor>"
  have "0 \<le> log 2 \<bar>x\<bar>"
    using pos by simp
  then have e0: "0 \<le> e"
    by (simp add: e_def)
  have "log 2 \<bar>x\<bar> < 24"
    using pos small by (simp add: log_less_iff)
  then have e23: "e \<le> 23"
    by (simp add: e_def floor_le_iff)
  define j where "j = nat (23 - e)"
  have "ulp32 x = 2 powr of_int (- int j)"
    using e0 e23 by (simp add: ulp32_def e_def [symmetric] j_def max_def)
  then have ulp: "ulp32 x = 1 / 2 ^ j"
    by (simp only: two_powr_neg)
  have "x / ulp32 x = of_int (n * 2 ^ j)"
    unfolding ulp by (simp add: x_def)
  then have "round_half_even (x / ulp32 x) = n * 2 ^ j"
    by (simp only: round_half_even_of_int)
  moreover have "x \<noteq> 0"
    using pos by auto
  ultimately have "round32 x = of_int (n * 2 ^ j) * (1 / 2 ^ j)"
    unfolding round32_def ulp by simp
  then have "round32 x = of_int n"
    by simp
  then show ?thesis
    by (simp add: x_def)
qed

lemma FLT_MAX_ge: "2 ^ 24 \<le> FLT_MAX"
  by (simp add: FLT_MAX_def)

lemma fround_of_int:
  assumes "\<bar>n\<bar> < 2 ^ 24"
  shows "fround (of_int n) = Finite (of_int n)"
proof -
  have "\<bar>of_int n :: real\<bar> < 2 ^ 24"
    using assms by (simp flip: of_int_abs)
  then have "\<bar>of_int n :: real\<bar> < FLT_MAX"
    using FLT_MAX_ge by linarith
  then have "\<not> FLT_MAX < of_int n" and "\<not> of_int n < - FLT_MAX"
    by linarith+
  then show ?thesis
    by (simp add: fround_def round32_of_int [OF assms])
qed

lemma fround_0 [simp]: "fround 0 = Finite 0"
  using fround_of_int [of 0] by simp

lemma fround_1 [simp]: "fround 1 = Finite 1"
  using fround_of_int [of 1] by simp

lemma fround_numeral [simp]:
  "(numeral k :: int) < 16777216 \<Longrightarrow> fround (numeral k) = Finite (numeral k)"
  using fround_of_int [of "numeral k"] by simp

lemma fround_neg_numeral [simp]:
  "(numeral k :: int) < 16777216 \<Longrightarrow> fround (- numeral k) = Finite (- numeral k)"
  using fround_of_int [of "- numeral k"] by simp

lemma round_half_even_nonneg: "0 \<le> y \<Longrightarrow> 0 \<le> round_half_even y"
  by (simp add: round_half_even_def)

lemma ulp32_pos: "0 < ulp32 x"
  by (simp add: ulp32_def)

lemma round32_nonneg: "0 \<le> x \<Longrightarrow> 0 \<le> round32 x"
  using ulp32_pos [of x] by (simp add: round32_def round_half_even_nonneg)

lemma FLT_MAX_pos: "0 < FLT_MAX"
  by (simp add: FLT_MAX_def)

lemma fnonneg_simps [simp]:
  "fnonneg (Finite a) = (0 \<le> a)" "fnonneg PosInf" "\<not> fnonneg NegInf" "\<not> fnonneg NaN"
  by (simp_all add: fnonneg_def)

lemma fround_nonneg: "0 \<le> x \<Longrightarrow> fnonneg (fround x)"
  using round32_nonneg [of x] FLT_MAX_pos by (simp add: fround_def)

lemma fround_cases: "fround x \<noteq> NaN"
  by (simp add: fround_def)

lemma fnonneg_fmul_self: "x \<noteq> NaN \<Longrightarrow> fnonneg (fmul x x)"
  by (cases x) (simp_all add: fround_nonneg)

lemma fnonneg_fadd: "fnonneg x \<Longrightarrow> fnonneg y \<Longrightarrow> fnonneg (fadd x y)"
  by (cases x; cases y) (simp_all add: fround_nonneg)

lemma fnonneg_fsqrt: "fnonneg x \<Longrightarrow> fnonneg (fsqrt x)"
  by (cases x) (simp_all add: fround_nonneg)

lemma fnonneg_fabs: "x \<noteq> NaN \<Longrightarrow> fnonneg (fabs x)"
  by (cases x) simp_all

lemma fnonneg_fdiv: "fnonneg x \<Longrightarrow> 0 < v \<Longrightarrow> fnonneg (fdiv x (Finite v))"
  by (cases x) (simp_all add: fround_nonneg)

lemma fsub_not_nan: "fsub (Finite a) (Finite b) \<noteq> NaN"
  by (simp add: fsub_def fround_cases)

lemma round_half_even_numeral [simp]: "round_half_even (numeral k) = numeral k"
  using round_half_even_of_int [of "numeral k"] by simp

lemma fround_seven_tenths: "fround seven_tenths = Finite seven_tenths"
proof -
  have "round32 seven_tenths = seven_tenths"
    using round32_lt1 [of 0 seven_tenths] by (simp add: seven_tenths_def)
  then show ?thesis
    by (simp add: fround_def FLT_MAX_def seven_tenths_def)
qed

lemma fround_seven_tenths_times_5: "fround (seven_tenths * 5) = Finite (7 / 2)"
proof -
  have "round_half_even (seven_tenths * 5 * 2 ^ 22) = 14680064"
    by (simp add: seven_tenths_def round_half_even_def)
  then have "round32 (seven_tenths * 5) = 7 / 2"
    using round32_ge1 [of 1 "seven_tenths * 5"] by (simp add: seven_tenths_def)
  then show ?thesis
    by (simp add: fround_def FLT_MAX_def)
qed

lemma fround_21_2: "fround (21 / 2) = Finite (21 / 2)"
proof -
  have "round_half_even (21 / 2 * 2 ^ 20) = 11010048"
    by (simp add: round_half_even_def)
  then have "round32 (21 / 2) = 21 / 2"
    using round32_ge1 [of 3 "21 / 2"] by simp
  then show ?thesis
    by (simp add: fround_def FLT_MAX_def)
qed

lemma fround_7_by_seven_tenths: "fround (7 / seven_tenths) = Finite 10"
proof -
  have "round_half_even (7 / seven_tenths * 2 ^ 20) = 10485760"
    by (simp add: seven_tenths_def round_half_even_def)
  then have "round32 (7 / seven_tenths) = 10"
    using round32_ge1 [of 3 "7 / seven_tenths"] by (simp add: seven_tenths_def)
  then show ?thesis
    by (simp add: fround_def FLT_MAX_def)
qed

subsection \<open>What each part of advanceSegment leaves alone\<close>

lemma advanceSegment_load_fields [simp]:
  "pathManagerStatus (advanceSegment_load ext st) =
     (pathManagerStatus st)\<lparr>ActiveSegment := ActiveSegment (pathManagerStatus st) + 1,
                             Status := STATUS_INPROGRESS\<rparr>"
  "PathManagerStatus_object (advanceSegment_load ext st) = pathManagerStatus (advanceSegment_load ext st)"
  "angularDistanceCompleted_D (advanceSegment_load ext st) = 0"
  "previousLocus (advanceSegment_load ext st) =
     \<lparr>Position = SwitchingLocus (advanceSegment_past ext st),
      Velocity = FinalVelocity (advanceSegment_past ext st)\<rparr>"
  "pathSegmentDescriptor_current (advanceSegment_load ext st) =
     PathSegmentDescriptorInstGet (instances st) (ActiveSegment (pathManagerStatus st) + 1)
       (pathSegmentDescriptor_current st)"
  "instances (advanceSegment_load ext st) = instances st"
  "pathManagerSettings (advanceSegment_load ext st) = pathManagerSettings st"
  "fixedWingAirspeeds (advanceSegment_load ext st) = fixedWingAirspeeds st"
  "theta_roundoff_trim_count (advanceSegment_load ext st) = theta_roundoff_trim_count st"
  "arc_has_center (advanceSegment_load ext st) = arc_has_center st"
  "arcCenter_NE (advanceSegment_load ext st) = arcCenter_NE st"
  "pathplanner_active (advanceSegment_load ext st) = pathplanner_active st"
  "lastSysTime (advanceSegment_load ext st) = lastSysTime st"
  "overshootTimer (advanceSegment_load ext st) = overshootTimer st"
  "guidanceType (advanceSegment_load ext st) = guidanceType st"
  "alarm (advanceSegment_load ext st) = alarm st"
  by (simp_all add: advanceSegment_load_def Let_def PathManagerStatusSet_def)

lemma advanceSegment_arc_fields [simp]:
  "pathManagerStatus (advanceSegment_arc ext st) = pathManagerStatus st"
  "PathManagerStatus_object (advanceSegment_arc ext st) = PathManagerStatus_object st"
  "angularDistanceCompleted_D (advanceSegment_arc ext st) = angularDistanceCompleted_D st"
  "previousLocus (advanceSegment_arc ext st) = previousLocus st"
  "pathSegmentDescriptor_current (advanceSegment_arc ext st) = pathSegmentDescriptor_current st"
  "instances (advanceSegment_arc ext st) = instances st"
  "pathManagerSettings (advanceSegment_arc ext st) = pathManagerSettings st"
  "fixedWingAirspeeds (advanceSegment_arc ext st) = fixedWingAirspeeds st"
  "theta_roundoff_trim_count (advanceSegment_arc ext st) = theta_roundoff_trim_count st"
  "pathplanner_active (advanceSegment_arc ext st) = pathplanner_active st"
  "lastSysTime (advanceSegment_arc ext st) = lastSysTime st"
  "overshootTimer (advanceSegment_arc ext st) = overshootTimer st"
  "guidanceType (advanceSegment_arc ext st) = guidanceType st"
  "alarm (advanceSegment_arc ext st) = alarm st"
  by (simp_all add: advanceSegment_arc_def Let_def split: arc_center_results.split)

lemma advanceSegment_finish_fields [simp]:
  "pathManagerStatus (advanceSegment_finish ext now past st) =
     (pathManagerStatus st)\<lparr>Timeout := advanceSegment_timeout (advanceSegment_length ext past st)
        (FinalVelocity (pathSegmentDescriptor_current st))\<rparr>"
  "PathManagerStatus_object (advanceSegment_finish ext now past st) =
     pathManagerStatus (advanceSegment_finish ext now past st)"
  "segmentTimer (advanceSegment_finish ext now past st) = now"
  "angularDistanceCompleted_D (advanceSegment_finish ext now past st) = angularDistanceCompleted_D st"
  "angularDistanceToComplete_D (advanceSegment_finish ext now past st) = angularDistanceToComplete_D st"
  "previousLocus (advanceSegment_finish ext now past st) = previousLocus st"
  "pathSegmentDescriptor_current (advanceSegment_finish ext now past st) = pathSegmentDescriptor_current st"
  "instances (advanceSegment_finish ext now past st) = instances st"
  "pathManagerSettings (advanceSegment_finish ext now past st) = pathManagerSettings st"
  "fixedWingAirspeeds (advanceSegment_finish ext now past st) = fixedWingAirspeeds st"
  "theta_roundoff_trim_count (advanceSegment_finish ext now past st) = theta_roundoff_trim_count st"
  "arc_has_center (advanceSegment_finish ext now past st) = arc_has_center st"
  "arcCenter_NE (advanceSegment_finish ext now past st) = arcCenter_NE st"
  "oldPosition_NE (advanceSegment_finish ext now past st) = oldPosition_NE st"
  "pathplanner_active (advanceSegment_finish ext now past st) = pathplanner_active st"
  "lastSysTime (advanceSegment_finish ext now past st) = lastSysTime st"
  "overshootTimer (advanceSegment_finish ext now past st) = overshootTimer st"
  "guidanceType (advanceSegment_finish ext now past st) = guidanceType st"
  "alarm (advanceSegment_finish ext now past st) = alarm st"
  by (simp_all add: advanceSegment_finish_def Let_def PathManagerStatusSet_def)

subsection \<open>The index and the accumulated angle after an advance\<close>

lemma unat_succ_16:
  fixes w :: "16 word"
  assumes "w \<noteq> 65535"
  shows "unat (w + 1) = unat w + 1"
proof -
  have "unat w \<noteq> unat (65535 :: 16 word)"
    using assms by (simp add: word_unat_eq_iff)
  moreover have "unat w < 65536"
    using unsigned_less [of w, where ?'a = nat] by simp
  ultimately have "unat w + unat (1 :: 16 word) < 2 ^ LENGTH(16)"
    by simp
  then show ?thesis
    using unat_add_lem [of w 1] by simp
qed

text \<open>
  C2, as the code has it. Every execution of advanceSegment adds one to ActiveSegment in
  the arithmetic of the 16-bit field: below 65535 the index, read as a number, grows by
  exactly one, and at 65535 it becomes 0. The accumulated angle is 0 when
  advanceSegment returns, and the status object that the other tasks read carries the
  same index.
\<close>

theorem advance_increments_index:
  "ActiveSegment (pathManagerStatus (advanceSegment ext now st)) =
     ActiveSegment (pathManagerStatus st) + 1 \<and>
   unat (ActiveSegment (pathManagerStatus (advanceSegment ext now st))) =
     (unat (ActiveSegment (pathManagerStatus st)) + 1) mod 65536 \<and>
   (ActiveSegment (pathManagerStatus st) \<noteq> 65535 \<longrightarrow>
      unat (ActiveSegment (pathManagerStatus (advanceSegment ext now st))) =
        unat (ActiveSegment (pathManagerStatus st)) + 1) \<and>
   (ActiveSegment (pathManagerStatus st) = 65535 \<longrightarrow>
      ActiveSegment (pathManagerStatus (advanceSegment ext now st)) = 0) \<and>
   ActiveSegment (PathManagerStatus_object (advanceSegment ext now st)) =
     ActiveSegment (pathManagerStatus st) + 1 \<and>
   angularDistanceCompleted_D (advanceSegment ext now st) = 0"
proof -
  let ?w = "ActiveSegment (pathManagerStatus st)"
  have idx: "ActiveSegment (pathManagerStatus (advanceSegment ext now st)) = ?w + 1"
    and obj: "ActiveSegment (PathManagerStatus_object (advanceSegment ext now st)) = ?w + 1"
    and ang: "angularDistanceCompleted_D (advanceSegment ext now st) = 0"
    by (simp_all add: advanceSegment_def)
  have md: "unat (?w + 1) = (unat ?w + 1) mod 65536"
    by (simp add: unat_word_ariths)
  have lt: "?w \<noteq> 65535 \<longrightarrow> unat (?w + 1) = unat ?w + 1"
    by (simp add: unat_succ_16)
  have wrap: "?w = 65535 \<longrightarrow> ?w + 1 = 0"
    by simp
  show ?thesis
    unfolding idx obj ang using md lt wrap by blast
qed

theorem advance_increments_index_witness:
  "ActiveSegment (pathManagerStatus (example_start line_program)) \<noteq> 65535 \<and>
   unat (ActiveSegment (pathManagerStatus
     (advanceSegment example_externals 5 (example_start line_program)))) = 1 \<and>
   angularDistanceCompleted_D (advanceSegment example_externals 5 (example_start line_program)) = 0"
  using advance_increments_index [of example_externals 5 "example_start line_program"]
  by (simp add: example_defs)

subsection \<open>The timeout of the new segment\<close>

lemma clamp_timeout:
  assumes "fnonneg q"
  shows "uint (float_to_uint16 (bound_min_max (fceil q) (Finite 0) (Finite 65535))) =
           (case q of Finite x \<Rightarrow> max 0 (min 65535 \<lceil>x\<rceil>) | PosInf \<Rightarrow> 65535 | NegInf \<Rightarrow> 0 | NaN \<Rightarrow> 0)"
proof (cases q)
  case (Finite x)
  then have "0 \<le> \<lceil>x\<rceil>"
    using assms by (simp add: ceiling_le_iff order_trans [OF _ le_of_int_ceiling])
  show ?thesis
  proof (cases "65535 < \<lceil>x\<rceil>")
    case True
    then show ?thesis
      using Finite \<open>0 \<le> \<lceil>x\<rceil>\<close> by (simp add: float_to_uint16_def bound_min_max_def)
  next
    case False
    then have "uint (word_of_int \<lceil>x\<rceil> :: 16 word) = \<lceil>x\<rceil>"
      using \<open>0 \<le> \<lceil>x\<rceil>\<close> by (simp add: uint_word_of_int)
    then show ?thesis
      using Finite False \<open>0 \<le> \<lceil>x\<rceil>\<close> by (simp add: float_to_uint16_def bound_min_max_def)
  qed
qed (use assms in \<open>simp_all add: float_to_uint16_def bound_min_max_def\<close>)

lemma fdiv_not_nan: "x \<noteq> NaN \<Longrightarrow> c \<noteq> 0 \<Longrightarrow> fdiv x (Finite c) \<noteq> NaN"
  by (cases x) (simp_all add: fround_cases)

lemma pathLength32_not_nan: "pathLength32 ext st \<noteq> NaN"
proof (cases "PathCurvature (pathSegmentDescriptor_current st) = 0")
  case True
  have "fnonneg (fsqrt (fadd (fmul (fsub (Finite a) (Finite b)) (fsub (Finite a) (Finite b)))
                             (fmul (fsub (Finite c) (Finite d)) (fsub (Finite c) (Finite d)))))"
    for a b c d
    by (intro fnonneg_fsqrt fnonneg_fadd fnonneg_fmul_self fsub_not_nan)
  then have "fnonneg (pathLength32 ext st)"
    using True by (simp add: pathLength32_def Let_def)
  then show ?thesis
    by auto
next
  case False
  have "fmul (Finite a) (Finite b) \<noteq> NaN" for a b
    by (simp add: fround_cases)
  then show ?thesis
    using False by (simp add: pathLength32_def Let_def fdiv_not_nan)
qed

lemma advanceSegment_length_pathLength32:
  assumes "Position (previousLocus st) = SwitchingLocus past"
  shows "advanceSegment_length ext past st = pathLength32 ext st"
  using assms by (simp add: advanceSegment_length_def pathLength32_def Let_def NE_def)

lemma pathLength32_finish [simp]:
  "pathLength32 ext (advanceSegment_finish ext now past st) = pathLength32 ext st"
  by (simp add: pathLength32_def Let_def)

lemma advanceSegment_Timeout:
  "Timeout (pathManagerStatus (advanceSegment ext now st)) =
     advanceSegment_timeout (pathLength32 ext (advanceSegment ext now st))
       (FinalVelocity (pathSegmentDescriptor_current (advanceSegment ext now st)))"
  by (simp add: advanceSegment_def advanceSegment_length_pathLength32)

text \<open>
  C5, as the code has it. After an advance, with \<open>v\<close> the final velocity of the segment
  loaded, \<open>s\<close> its path length computed in single precision and \<open>q\<close> the
  single-precision quotient of \<open>\<bar>s\<bar>\<close> by \<open>v\<close> (for a finite \<open>s\<close> the exact quotient rounded
  to the nearest float, or infinity beyond the largest one): for positive \<open>v\<close> the
  quotient is not negative and not a NaN, and the timeout, read as a number, is the
  ceiling of \<open>q\<close> clamped to 0 .. 65535, an infinite \<open>q\<close> giving 65535; for \<open>v\<close> zero or
  negative it is 65535; and that is the timeout in the published status.
\<close>

theorem timeout_law:
  assumes "st' = advanceSegment ext now st"
      and "v = FinalVelocity (pathSegmentDescriptor_current st')"
      and "s = pathLength32 ext st'"
      and "q = fdiv (fabs s) (Finite v)"
  shows "(v > 0 \<longrightarrow>
            fnonneg q \<and>
            uint (Timeout (pathManagerStatus st')) =
              (case q of Finite x \<Rightarrow> max 0 (min 65535 \<lceil>x\<rceil>) | PosInf \<Rightarrow> 65535
               | NegInf \<Rightarrow> 0 | NaN \<Rightarrow> 0)) \<and>
         (v > 0 \<longrightarrow> (\<forall>x. s = Finite x \<longrightarrow> q = fround (\<bar>x\<bar> / v))) \<and>
         (v \<le> 0 \<longrightarrow> Timeout (pathManagerStatus st') = 65535) \<and>
         Timeout (PathManagerStatus_object st') = Timeout (pathManagerStatus st')"
proof -
  have t: "Timeout (pathManagerStatus st') = advanceSegment_timeout s v"
    using assms(1-3) by (simp only: advanceSegment_Timeout)
  have obj: "PathManagerStatus_object st' = pathManagerStatus st'"
    using assms(1) by (simp add: advanceSegment_def)
  have "s \<noteq> NaN"
    using assms(3) by (simp add: pathLength32_not_nan)
  then have nonneg: "fnonneg q" if "v > 0"
    using that assms(4) by (simp add: fnonneg_fabs fnonneg_fdiv)
  have "uint (Timeout (pathManagerStatus st')) =
          (case q of Finite x \<Rightarrow> max 0 (min 65535 \<lceil>x\<rceil>) | PosInf \<Rightarrow> 65535
           | NegInf \<Rightarrow> 0 | NaN \<Rightarrow> 0)" if "v > 0"
    using that clamp_timeout [OF nonneg [OF that]] t assms(4)
    by (simp add: advanceSegment_timeout_def)
  moreover have "q = fround (\<bar>x\<bar> / v)" if "v > 0" "s = Finite x" for x
    using that assms(4) by simp
  moreover have "Timeout (pathManagerStatus st') = 65535" if "v \<le> 0"
    using that t by (simp add: advanceSegment_timeout_def)
  ultimately show ?thesis
    using nonneg obj by simp
qed

lemma sqrt_10000: "sqrt 10000 = 100"
  using real_sqrt_abs [of 100] by simp

lemma sqrt_49: "sqrt 49 = 7"
  using real_sqrt_abs [of 7] by simp

theorem timeout_law_witness:
  "FinalVelocity (pathSegmentDescriptor_current
     (advanceSegment example_externals 5 (example_start line_program))) > 0 \<and>
   pathLength32 example_externals (advanceSegment example_externals 5 (example_start line_program))
     = Finite 100 \<and>
   uint (Timeout (pathManagerStatus
     (advanceSegment example_externals 5 (example_start line_program)))) = 10 \<and>
   FinalVelocity (pathSegmentDescriptor_current
     (advanceSegment example_externals 5 (example_start arc_program))) = 0 \<and>
   Timeout (pathManagerStatus
     (advanceSegment example_externals 5 (example_start arc_program))) = 65535"
  using timeout_law [OF refl refl refl refl, of example_externals 5 "example_start line_program"]
    timeout_law [OF refl refl refl refl, of example_externals 5 "example_start arc_program"]
  by (simp add: advanceSegment_def pathLength32_def example_defs PathSegmentDescriptorInstGet_def
      advanceSegment_past_def NE_def fsub_def sqrt_10000)

lemma seven_tenths_pos [simp]: "0 < seven_tenths" "seven_tenths \<noteq> 0"
  by (simp_all add: seven_tenths_def)

lemma ceiling_7_by_seven_tenths: "\<lceil>7 / seven_tenths\<rceil> = 11"
  by (simp add: seven_tenths_def)

text \<open>
  C5, as stated, fails. The slow line program has a line from (0,0) to (7,0) with the
  final velocity 0.7 as a float, a little below 0.7. The path length is 7 and the
  exact quotient a little above 10, so that the law of the claim gives 11; the
  single-precision quotient is 10, and the activating pass publishes the timeout 10.
\<close>

theorem timeout_law_counterexample:
  "FinalVelocity (pathSegmentDescriptor_current
     (pathManagerTask_loop example_externals [example_input (0, 0)] slow_start)) = seven_tenths \<and>
   pathLength example_externals
     (pathManagerTask_loop example_externals [example_input (0, 0)] slow_start) = 7 \<and>
   max 0 (min 65535 \<lceil>\<bar>7\<bar> / seven_tenths\<rceil>) = 11 \<and>
   uint (Timeout (PathManagerStatus_object
     (pathManagerTask_loop example_externals [example_input (0, 0)] slow_start))) = 10"
  by (simp add: pathLength_def tick_defs advance_defs example_defs Let_def sqrt_49
      fround_7_by_seven_tenths ceiling_7_by_seven_tenths)

subsection \<open>The angular distance of an arc\<close>

lemma advanceSegment_arc_found:
  assumes "PathCurvature (pathSegmentDescriptor_current st) \<noteq> 0"
      and "arc_has_center (advanceSegment_arc ext st) = CENTER_FOUND"
  shows "angularDistanceToComplete_D (advanceSegment_arc ext st) =
           SIGN ext (PathCurvature (pathSegmentDescriptor_current st)) *
             real (NumberOfOrbits (pathSegmentDescriptor_current st)) * 360 +
           wrapAngle ext (PathCurvature (pathSegmentDescriptor_current st))
             (measure_arc_rad ext (NE (Position (previousLocus st)))
                (NE (SwitchingLocus (pathSegmentDescriptor_current st)))
                (arcCenter_NE (advanceSegment_arc ext st)) * RAD2DEG ext)"
  using assms
  by (simp add: advanceSegment_arc_def Let_def split: arc_center_results.splits)

lemma wrapAngle_sign:
  fixes sg raw :: real
  assumes "\<bar>sg\<bar> = 1" and "\<bar>raw\<bar> \<le> 360"
  shows "0 \<le> sg * (if sg * raw < 0 then raw + 360 * sg else raw)"
proof (cases "sg * raw < 0")
  case True
  have "sg * sg = 1"
    using assms(1) abs_mult_self_eq [of sg] by simp
  moreover have "\<bar>sg * raw\<bar> \<le> 360"
    using assms by (simp add: abs_mult)
  ultimately show ?thesis
    using True by (simp add: distrib_left)
next
  case False
  then show ?thesis by simp
qed

lemma wrapAngle_sign_strict:
  fixes sg raw :: real
  assumes "\<bar>sg\<bar> = 1" and "\<bar>raw\<bar> < 360" and "raw \<noteq> 0"
  shows "0 < sg * (if sg * raw < 0 then raw + 360 * sg else raw)"
proof (cases "sg * raw < 0")
  case True
  have "sg * sg = 1"
    using assms(1) abs_mult_self_eq [of sg] by simp
  moreover have "\<bar>sg * raw\<bar> < 360"
    using assms by (simp add: abs_mult)
  ultimately show ?thesis
    using True by (simp add: distrib_left)
next
  case False
  moreover have "sg * raw \<noteq> 0"
    using assms(1,3) by auto
  ultimately have "0 < sg * raw"
    by linarith
  with False show ?thesis by simp
qed



subsection \<open>The overshoot monitor\<close>




subsection \<open>What the parts of a pass leave alone\<close>

lemma passState_fields [simp]:
  "theta_roundoff_trim_count (passState ext inp st) = theta_roundoff_trim_count st"
  "pathSegmentDescriptor_current (passState ext inp st) = pathSegmentDescriptor_current st"
  "arc_has_center (passState ext inp st) = arc_has_center st"
  "angularDistanceToComplete_D (passState ext inp st) = angularDistanceToComplete_D st"
  "angularDistanceCompleted_D (passState ext inp st) = angularDistanceCompleted_D st"
  "pathManagerStatus (passState ext inp st) = pathManagerStatus st"
  by (simp_all add: passState_def selectGuidance_def idleGuidance_def waitPeriod_def
      settingsUpdated_def Let_def split: flight_mode.split option.split)

lemma accumulateArc_fields [simp]:
  "theta_roundoff_trim_count (accumulateArc ext pos st) = theta_roundoff_trim_count st"
  "pathSegmentDescriptor_current (accumulateArc ext pos st) = pathSegmentDescriptor_current st"
  "arc_has_center (accumulateArc ext pos st) = arc_has_center st"
  "angularDistanceToComplete_D (accumulateArc ext pos st) = angularDistanceToComplete_D st"
  "pathManagerStatus (accumulateArc ext pos st) = pathManagerStatus st"
  "instances (accumulateArc ext pos st) = instances st"
  "pathManagerSettings (accumulateArc ext pos st) = pathManagerSettings st"
  "pathplanner_active (accumulateArc ext pos st) = pathplanner_active st"
  by (simp_all add: accumulateArc_def)

lemma updateArcMeasure_fields [simp]:
  "pathSegmentDescriptor_current (updateArcMeasure ext pos st) = pathSegmentDescriptor_current st"
  "arc_has_center (updateArcMeasure ext pos st) = arc_has_center st"
  "angularDistanceToComplete_D (updateArcMeasure ext pos st) = angularDistanceToComplete_D st"
  "pathManagerStatus (updateArcMeasure ext pos st) = pathManagerStatus st"
  "instances (updateArcMeasure ext pos st) = instances st"
  "pathManagerSettings (updateArcMeasure ext pos st) = pathManagerSettings st"
  "pathplanner_active (updateArcMeasure ext pos st) = pathplanner_active st"
  by (simp_all add: updateArcMeasure_def roundoffTrim_def Let_def)

lemma updateArcMeasure_untracked:
  "\<not> arcTracked st \<Longrightarrow> updateArcMeasure ext pos st = st"
  by (auto simp add: updateArcMeasure_def arcTracked_def)

lemma updateArcMeasure_tracked:
  "arcTracked st \<Longrightarrow> roundoffTrimDue (accumulateArc ext pos st) \<Longrightarrow>
     updateArcMeasure ext pos st =
       roundoffTrim ext pos ((accumulateArc ext pos st)
         \<lparr>theta_roundoff_trim_count := theta_roundoff_trim_count st + 1\<rparr>)"
  by (simp add: updateArcMeasure_def arcTracked_def Let_def)

lemma updateArcMeasure_count:
  "theta_roundoff_trim_count st = 0 \<Longrightarrow>
     theta_roundoff_trim_count (updateArcMeasure ext pos st) = 0"
  by (simp add: updateArcMeasure_def roundoffTrim_def roundoffTrimDue_def Let_def)

lemma activate_fields [simp]:
  "theta_roundoff_trim_count (snd (activate now flag st)) = theta_roundoff_trim_count st"
  "pathSegmentDescriptor_current (snd (activate now flag st)) = pathSegmentDescriptor_current st"
  "arc_has_center (snd (activate now flag st)) = arc_has_center st"
  "angularDistanceToComplete_D (snd (activate now flag st)) = angularDistanceToComplete_D st"
  "angularDistanceCompleted_D (snd (activate now flag st)) = angularDistanceCompleted_D st"
  by (simp_all add: activate_def PathManagerStatusSet_def)

lemma checkOvershoot_fields [simp]:
  "theta_roundoff_trim_count (checkOvershoot pos st) = theta_roundoff_trim_count st"
  "pathSegmentDescriptor_current (checkOvershoot pos st) = pathSegmentDescriptor_current st"
  "arc_has_center (checkOvershoot pos st) = arc_has_center st"
  "angularDistanceToComplete_D (checkOvershoot pos st) = angularDistanceToComplete_D st"
  "angularDistanceCompleted_D (checkOvershoot pos st) = angularDistanceCompleted_D st"
  by (simp_all add: checkOvershoot_def PathManagerStatusSet_def)

lemma dispatch_count [simp]:
  "theta_roundoff_trim_count (dispatch ext inp flag st) = theta_roundoff_trim_count st"
  by (simp add: dispatch_def advanceSegment_def flagTimedOut_def overshootPass_def
      PathManagerStatusSet_def split: tick_branch.split)

subsection \<open>The trim counter is 0 at the start of every pass\<close>

lemma tick_count:
  "theta_roundoff_trim_count st = 0 \<Longrightarrow>
     theta_roundoff_trim_count (pathManagerTask_tick ext inp st) = 0"
  by (simp add: pathManagerTask_tick_def guidancePass_def passTail_def Let_def
      updateArcMeasure_count)

lemma loop_count:
  "theta_roundoff_trim_count st = 0 \<Longrightarrow>
     theta_roundoff_trim_count (pathManagerTask_loop ext inps st) = 0"
  by (induction inps arbitrary: st) (simp_all add: tick_count)

lemma tick_gateState:
  "passActive ext inp st \<Longrightarrow>
     pathManagerTask_tick ext inp st = passTail ext inp (gateState ext inp st)"
  by (simp add: pathManagerTask_tick_def guidancePass_def gateState_def)

text \<open>
  C9. In every run of the task from its start the counter tested by line 257 is 0 when
  a pass begins, since the correction resets it. A pass that tracks an arc therefore
  runs the correction: when lines 244 to 267 are done the accumulated angle is \<open>acc\<close>,
  the angle accumulated before plus the angle swept since the last pass, plus the
  circular modulus of the reference angle \<open>ref\<close> less \<open>acc\<close>; the last position is the
  new one, the counter is 0 again, and the pass goes on from that state. A pass that
  does not track an arc changes nothing there. So on an arc tracked pass after pass
  the correction runs in every pass: consecutive corrections are one pass apart.
\<close>

theorem drift_correction_every_tracked_pass:
  assumes "st = pathManagerTask_loop ext inps
                  (pathManagerTask_start ext t0 t1 insts obj settings airspeeds)"
      and "p = passState ext inp st"
      and "acc = angularDistanceCompleted_D p +
                   measure_arc_rad ext (oldPosition_NE p) (positionActual inp) (arcCenter_NE p)
                     * RAD2DEG ext"
      and "ref = measure_arc_rad ext (NE (Position (previousLocus p))) (positionActual inp)
                   (arcCenter_NE p) * RAD2DEG ext"
  shows "theta_roundoff_trim_count st = 0 \<and>
         (passTracksArc ext inp st \<longrightarrow>
            angularDistanceCompleted_D (gateState ext inp st) =
              acc + circular_modulus_deg ext (ref - acc) \<and>
            oldPosition_NE (gateState ext inp st) = positionActual inp \<and>
            theta_roundoff_trim_count (gateState ext inp st) = 0 \<and>
            pathManagerTask_tick ext inp st = passTail ext inp (gateState ext inp st)) \<and>
         (passActive ext inp st \<and> \<not> arcTracked p \<longrightarrow>
            gateState ext inp st = p \<and>
            pathManagerTask_tick ext inp st = passTail ext inp p) \<and>
         (\<not> passActive ext inp st \<longrightarrow> pathManagerTask_tick ext inp st = p)"
proof -
  have zero: "theta_roundoff_trim_count st = 0"
    unfolding assms(1) by (rule loop_count) (simp add: pathManagerTask_start_def)
  then have due: "roundoffTrimDue (accumulateArc ext (positionActual inp) p)"
    by (simp add: roundoffTrimDue_def assms(2))
  have tracked: "gateState ext inp st =
      roundoffTrim ext (positionActual inp)
        ((accumulateArc ext (positionActual inp) p)
           \<lparr>theta_roundoff_trim_count := theta_roundoff_trim_count p + 1\<rparr>)"
    if "arcTracked p"
    unfolding gateState_def assms(2) [symmetric]
    using that due by (rule updateArcMeasure_tracked)
  have corrected:
    "angularDistanceCompleted_D (gateState ext inp st) = acc + circular_modulus_deg ext (ref - acc)"
    "oldPosition_NE (gateState ext inp st) = positionActual inp"
    "theta_roundoff_trim_count (gateState ext inp st) = 0"
    if "arcTracked p"
    unfolding tracked [OF that] assms(3,4)
    by (simp_all add: roundoffTrim_def accumulateArc_def Let_def)
  have idle: "gateState ext inp st = p" if "\<not> arcTracked p"
    unfolding gateState_def assms(2) [symmetric] using that by (rule updateArcMeasure_untracked)
  have inactive: "pathManagerTask_tick ext inp st = p" if "\<not> passActive ext inp st"
    using that by (simp add: pathManagerTask_tick_def assms(2))
  show ?thesis
    using zero corrected idle inactive tick_gateState [of ext inp st]
    by (auto simp add: passTracksArc_def assms(2) [symmetric])
qed

theorem drift_correction_every_tracked_pass_witness:
  "passTracksArc example_externals (example_input (20, 2))
     (pathManagerTask_loop example_externals [example_input (0, 0), example_input (10, 1)]
        (example_start arc_program)) \<and>
   angularDistanceCompleted_D
     (pathManagerTask_loop example_externals [example_input (0, 0), example_input (10, 1)]
        (example_start arc_program)) = 90 \<and>
   angularDistanceCompleted_D (gateState example_externals (example_input (20, 2))
     (pathManagerTask_loop example_externals [example_input (0, 0), example_input (10, 1)]
        (example_start arc_program))) = 180 + (90 - 180) \<and>
   oldPosition_NE (gateState example_externals (example_input (20, 2))
     (pathManagerTask_loop example_externals [example_input (0, 0), example_input (10, 1)]
        (example_start arc_program))) = (20, 2)"
  using drift_correction_every_tracked_pass [OF _ refl refl refl, of
      "pathManagerTask_loop example_externals [example_input (0, 0), example_input (10, 1)]
         (example_start arc_program)"
      example_externals "[example_input (0, 0), example_input (10, 1)]" 0 0 arc_program
      "\<lparr>ActiveSegment = 0, PathCounter = 0, Status = STATUS_INPROGRESS, Timeout = 0\<rparr>"
      example_settings "\<lparr>BestClimbRateSpeed = 10\<rparr>" "example_input (20, 2)"]
  by (simp add: passTracksArc_def arcTracked_def gateState_def tick_defs advance_defs
      example_defs Let_def)

subsection \<open>Running past the last segment\<close>

text \<open>
  C1. The line program has the two instances 0 and 1. The first pass activates it and
  advances to segment 1. In the second pass the vehicle is at the end of segment 1, the
  ball test fires and advanceSegment makes the index 2, where there is no instance:
  the published status is InProgress, not Completed, and the current descriptor is
  still that of segment 1. The third pass, at the same place, advances again, to 3.
\<close>

theorem program_underrun_not_detected:
  "length (instances (pathManagerTask_loop example_externals
      [example_input (0, 0), example_input (100, 0)] (example_start line_program))) = 2 \<and>
   PathManagerStatus_object (pathManagerTask_loop example_externals
      [example_input (0, 0), example_input (100, 0)] (example_start line_program)) =
     \<lparr>ActiveSegment = 2, PathCounter = 1, Status = STATUS_INPROGRESS, Timeout = 0\<rparr> \<and>
   pathSegmentDescriptor_current (pathManagerTask_loop example_externals
      [example_input (0, 0), example_input (100, 0)] (example_start line_program)) =
     line_program ! 1 \<and>
   ActiveSegment (PathManagerStatus_object (pathManagerTask_loop example_externals
      [example_input (0, 0), example_input (100, 0), example_input (100, 0)]
      (example_start line_program))) = 3 \<and>
   Status (PathManagerStatus_object (pathManagerTask_loop example_externals
      [example_input (0, 0), example_input (100, 0), example_input (100, 0)]
      (example_start line_program))) = STATUS_INPROGRESS"
  by (simp add: tick_defs advance_defs example_defs Let_def)

subsection \<open>Segments without arc tracking\<close>

lemma advanceSegment_arc_untracked:
  "arcTracked (advanceSegment_arc ext st) \<or> angularDistanceToComplete_D (advanceSegment_arc ext st) = 0"
  by (simp add: advanceSegment_arc_def arcTracked_def Let_def split: arc_center_results.split)

lemma advanceSegment_untrackedAtZero:
  "untrackedAtZero (advanceSegment ext now st)"
  using advanceSegment_arc_untracked [of ext "advanceSegment_load ext st"]
  by (simp add: untrackedAtZero_def arcTracked_def advanceSegment_def)

lemma dispatch_untrackedAtZero:
  "untrackedAtZero st \<Longrightarrow> untrackedAtZero (dispatch ext inp flag st)"
proof (cases "tickBranch ext flag st")
  case BRANCH_ADVANCE
  then show ?thesis
    by (simp add: dispatch_def advanceSegment_untrackedAtZero)
qed (simp_all add: dispatch_def flagTimedOut_def overshootPass_def untrackedAtZero_def
       arcTracked_def PathManagerStatusSet_def)

lemma updateArcMeasure_untrackedAtZero:
  "untrackedAtZero st \<Longrightarrow> untrackedAtZero (updateArcMeasure ext pos st)"
  by (cases "arcTracked st") (simp_all add: untrackedAtZero_def arcTracked_def updateArcMeasure_untracked)

lemma tick_untrackedAtZero:
  assumes "untrackedAtZero st"
  shows "untrackedAtZero (pathManagerTask_tick ext inp st)"
proof -
  have "untrackedAtZero (passState ext inp st)"
    using assms by (simp add: untrackedAtZero_def arcTracked_def)
  then have "untrackedAtZero (updateArcMeasure ext (positionActual inp) (passState ext inp st))"
    by (rule updateArcMeasure_untrackedAtZero)
  then have "untrackedAtZero (snd (activate (tickCount_activation inp) flag
               (updateArcMeasure ext (positionActual inp) (passState ext inp st))))" for flag
    by (simp add: untrackedAtZero_def arcTracked_def)
  then have "untrackedAtZero (guidancePass ext inp (passState ext inp st))"
    by (simp add: guidancePass_def passTail_def Let_def dispatch_untrackedAtZero)
  with \<open>untrackedAtZero (passState ext inp st)\<close> show ?thesis
    by (simp add: pathManagerTask_tick_def)
qed

lemma loop_untrackedAtZero:
  "untrackedAtZero st \<Longrightarrow> untrackedAtZero (pathManagerTask_loop ext inps st)"
  by (induction inps arbitrary: st) (simp_all add: tick_untrackedAtZero)

lemma start_untrackedAtZero:
  "untrackedAtZero (pathManagerTask_start ext t0 t1 insts obj settings airspeeds)"
  by (simp add: untrackedAtZero_def pathManagerTask_start_def)

lemma gate_open_at_zero:
  assumes "angularDistanceToComplete_D st = 0" and "angularDistanceCompleted_D st = 0"
  shows "goalCheckDue ext st"
  using assms by (simp add: goalCheckDue_def ANGULAR_PROXIMITY_THRESHOLD_def)

subsection \<open>The gate before the goal test\<close>

lemma gateState_fields [simp]:
  "pathSegmentDescriptor_current (gateState ext inp st) = pathSegmentDescriptor_current st"
  "arc_has_center (gateState ext inp st) = arc_has_center st"
  "angularDistanceToComplete_D (gateState ext inp st) = angularDistanceToComplete_D st"
  by (simp_all add: gateState_def)

lemma gateState_untracked:
  "\<not> arcTracked st \<Longrightarrow>
     angularDistanceCompleted_D (gateState ext inp st) = angularDistanceCompleted_D st"
  by (simp add: gateState_def updateArcMeasure_untracked arcTracked_def)



subsection \<open>The chain at the end of a pass\<close>

lemma tick_dispatch:
  "passActive ext inp st \<Longrightarrow>
     pathManagerTask_tick ext inp st =
       dispatch ext inp (dispatchFlag ext inp st) (dispatchState ext inp st)"
  by (simp add: pathManagerTask_tick_def guidancePass_def passTail_def dispatchFlag_def dispatchState_def
      gateState_def Let_def)

lemma dispatch_no_advance:
  "ActiveSegment (pathManagerStatus (dispatch ext inp False st)) = ActiveSegment (pathManagerStatus st)"
  by (simp add: dispatch_def tickBranch_def flagTimedOut_def overshootPass_def checkOvershoot_def
      PathManagerStatusSet_def)

lemma dispatch_False_fields:
  "pathSegmentDescriptor_current (dispatch ext inp False st) = pathSegmentDescriptor_current st"
  "arc_has_center (dispatch ext inp False st) = arc_has_center st"
  "angularDistanceToComplete_D (dispatch ext inp False st) = angularDistanceToComplete_D st"
  "angularDistanceCompleted_D (dispatch ext inp False st) = angularDistanceCompleted_D st"
  by (simp_all add: dispatch_def tickBranch_def flagTimedOut_def overshootPass_def
      PathManagerStatusSet_def)

lemma dispatch_True:
  "dispatch ext inp True st = advanceSegment ext (tickCount_advance inp) st"
  by (simp add: dispatch_def tickBranch_def)

subsection \<open>An arc whose centre is not found\<close>

text \<open>
  C6, as stated, fails. The wide arc program has an arc of radius 100 over a chord of
  300 as its last segment. After the activating pass the centre is not found and the
  angular distance to complete is 0. With the half-plane strategy the goal test of the
  next pass runs, at the very end point of the arc, and does not fire, and two passes
  later the index is still 1; with the ball strategy and the vehicle at the start of
  the arc the same happens.
\<close>

theorem unresolved_arc_not_left_counterexample:
  "PathCurvature (pathSegmentDescriptor_current (pathManagerTask_loop example_externals
      [example_input (0, 0)] (half_plane_start wide_arc_program))) = 1 / 100 \<and>
   arc_has_center (pathManagerTask_loop example_externals
      [example_input (0, 0)] (half_plane_start wide_arc_program)) = INSUFFICIENT_RADIUS \<and>
   angularDistanceToComplete_D (pathManagerTask_loop example_externals
      [example_input (0, 0)] (half_plane_start wide_arc_program)) = 0 \<and>
   ActiveSegment (pathManagerStatus (pathManagerTask_loop example_externals
      [example_input (0, 0)] (half_plane_start wide_arc_program))) = 1 \<and>
   goalCheckDue example_externals (gateState example_externals (example_input (300, 0))
     (pathManagerTask_loop example_externals
        [example_input (0, 0)] (half_plane_start wide_arc_program))) \<and>
   \<not> checkGoalCondition example_externals (300, 0)
     (gateState example_externals (example_input (300, 0))
       (pathManagerTask_loop example_externals
          [example_input (0, 0)] (half_plane_start wide_arc_program))) \<and>
   ActiveSegment (pathManagerStatus (pathManagerTask_loop example_externals
      [example_input (0, 0), example_input (300, 0), example_input (300, 0)]
      (half_plane_start wide_arc_program))) = 1 \<and>
   ActiveSegment (pathManagerStatus (pathManagerTask_loop example_externals
      [example_input (0, 0), example_input (0, 0), example_input (0, 0)]
      (example_start wide_arc_program))) = 1"
  by (simp add: gateState_def tick_defs advance_defs example_defs Let_def)

text \<open>
  C6, as the code has it. In every run of the task from its start, whenever the current
  segment is an arc whose centre was not found, both angular distances are 0; the
  pass that follows leaves the accumulated angle at 0, since the tracker does not run,
  the gate of line 273 is open and the flag of the pass is what checkGoalCondition
  returns. If it returns true the pass advances, and the index of an active program
  grows by one; if it returns false the pass of an active program stays on the
  segment, which is still an arc without a centre with both distances 0. So the
  segment is left in the first pass whose goal test succeeds.
\<close>

theorem unresolved_arc_stays_at_zero:
  assumes "st = pathManagerTask_loop ext inps
                  (pathManagerTask_start ext t0 t1 insts obj settings airspeeds)"
      and "PathCurvature (pathSegmentDescriptor_current st) \<noteq> 0"
      and "arc_has_center st \<noteq> CENTER_FOUND"
      and "st' = pathManagerTask_tick ext inp st"
  shows "angularDistanceToComplete_D st = 0 \<and> angularDistanceCompleted_D st = 0 \<and>
         updateArcMeasure ext (positionActual inp) (passState ext inp st) = passState ext inp st \<and>
         angularDistanceToComplete_D (gateState ext inp st) = 0 \<and>
         angularDistanceCompleted_D (gateState ext inp st) = 0 \<and>
         goalCheckDue ext (gateState ext inp st) \<and>
         goalFlag ext (positionActual inp) (gateState ext inp st) =
           checkGoalCondition ext (positionActual inp) (gateState ext inp st) \<and>
         (passActive ext inp st \<and>
          checkGoalCondition ext (positionActual inp) (gateState ext inp st) \<longrightarrow>
            st' = advanceSegment ext (tickCount_advance inp) (dispatchState ext inp st)) \<and>
         (passActive ext inp st \<and> pathplanner_active (passState ext inp st) \<and>
          checkGoalCondition ext (positionActual inp) (gateState ext inp st) \<longrightarrow>
            ActiveSegment (pathManagerStatus st') = ActiveSegment (pathManagerStatus st) + 1) \<and>
         (passActive ext inp st \<and> pathplanner_active (passState ext inp st) \<and>
          \<not> checkGoalCondition ext (positionActual inp) (gateState ext inp st) \<longrightarrow>
            ActiveSegment (pathManagerStatus st') = ActiveSegment (pathManagerStatus st) \<and>
            pathSegmentDescriptor_current st' = pathSegmentDescriptor_current st \<and>
            arc_has_center st' = arc_has_center st \<and>
            angularDistanceToComplete_D st' = 0 \<and> angularDistanceCompleted_D st' = 0)"
proof -
  let ?g = "gateState ext inp st"
  let ?goal = "checkGoalCondition ext (positionActual inp) ?g"
  have "untrackedAtZero st"
    unfolding assms(1) by (intro loop_untrackedAtZero start_untrackedAtZero)
  moreover have untracked: "\<not> arcTracked st"
    using assms(3) by (simp add: arcTracked_def)
  ultimately have zero: "angularDistanceToComplete_D st = 0" "angularDistanceCompleted_D st = 0"
    by (simp_all add: untrackedAtZero_def)
  have "\<not> arcTracked (passState ext inp st)"
    using assms(3) by (simp add: arcTracked_def)
  then have idle: "updateArcMeasure ext (positionActual inp) (passState ext inp st) = passState ext inp st"
    by (rule updateArcMeasure_untracked)
  then have g: "?g = passState ext inp st"
    by (simp add: gateState_def)
  have gate: "angularDistanceToComplete_D ?g = 0" "angularDistanceCompleted_D ?g = 0"
    using zero untracked by (simp_all add: gateState_untracked)
  then have due: "goalCheckDue ext ?g"
    by (rule gate_open_at_zero)
  then have flag: "goalFlag ext (positionActual inp) ?g = ?goal"
    by (simp add: goalFlag_def)
  have fires: "dispatchFlag ext inp st" if "?goal"
    using that flag by (simp add: dispatchFlag_def activate_def)
  have advance: "st' = advanceSegment ext (tickCount_advance inp) (dispatchState ext inp st)"
    if "passActive ext inp st" "?goal"
    using that fires by (simp add: assms(4) tick_dispatch dispatch_True)
  have same: "dispatchState ext inp st = ?g" "dispatchFlag ext inp st = ?goal"
    if "pathplanner_active (passState ext inp st)"
    using that flag g by (simp_all add: dispatchState_def dispatchFlag_def activate_def)
  have left: "ActiveSegment (pathManagerStatus st') = ActiveSegment (pathManagerStatus st) + 1"
    if "passActive ext inp st" "pathplanner_active (passState ext inp st)" "?goal"
    using advance [OF that(1,3)] same(1) [OF that(2)] g
    by (simp add: advanceSegment_def)
  have stays:
    "ActiveSegment (pathManagerStatus st') = ActiveSegment (pathManagerStatus st)"
    "pathSegmentDescriptor_current st' = pathSegmentDescriptor_current st"
    "arc_has_center st' = arc_has_center st"
    "angularDistanceToComplete_D st' = 0" "angularDistanceCompleted_D st' = 0"
    if "passActive ext inp st" "pathplanner_active (passState ext inp st)" "\<not> ?goal"
  proof -
    have "st' = dispatch ext inp False (passState ext inp st)"
      using that same [OF that(2)] g by (simp add: assms(4) tick_dispatch)
    then show
      "ActiveSegment (pathManagerStatus st') = ActiveSegment (pathManagerStatus st)"
      "pathSegmentDescriptor_current st' = pathSegmentDescriptor_current st"
      "arc_has_center st' = arc_has_center st"
      "angularDistanceToComplete_D st' = 0" "angularDistanceCompleted_D st' = 0"
      using zero by (simp_all add: dispatch_no_advance dispatch_False_fields)
  qed
  show ?thesis
    using zero idle gate due flag advance left stays by blast
qed

theorem unresolved_arc_stays_at_zero_witness:
  "PathCurvature (pathSegmentDescriptor_current (pathManagerTask_loop example_externals
      [example_input (0, 0)] (example_start wide_arc_program))) \<noteq> 0 \<and>
   arc_has_center (pathManagerTask_loop example_externals
      [example_input (0, 0)] (example_start wide_arc_program)) \<noteq> CENTER_FOUND \<and>
   angularDistanceToComplete_D (pathManagerTask_loop example_externals
      [example_input (0, 0)] (example_start wide_arc_program)) = 0 \<and>
   goalCheckDue example_externals (gateState example_externals (example_input (300, 0))
     (pathManagerTask_loop example_externals
        [example_input (0, 0)] (example_start wide_arc_program))) \<and>
   passActive example_externals (example_input (300, 0))
     (pathManagerTask_loop example_externals
        [example_input (0, 0)] (example_start wide_arc_program)) \<and>
   pathplanner_active (passState example_externals (example_input (300, 0))
     (pathManagerTask_loop example_externals
        [example_input (0, 0)] (example_start wide_arc_program))) \<and>
   checkGoalCondition example_externals (300, 0)
     (gateState example_externals (example_input (300, 0))
       (pathManagerTask_loop example_externals
          [example_input (0, 0)] (example_start wide_arc_program))) \<and>
   ActiveSegment (pathManagerStatus (pathManagerTask_loop example_externals
      [example_input (0, 0)] (example_start wide_arc_program))) = 1 \<and>
   ActiveSegment (pathManagerStatus (pathManagerTask_tick example_externals (example_input (300, 0))
     (pathManagerTask_loop example_externals
        [example_input (0, 0)] (example_start wide_arc_program)))) = 2"
proof -
  let ?st = "pathManagerTask_loop example_externals [example_input (0, 0)]
               (example_start wide_arc_program)"
  let ?inp = "example_input (300, 0)"
  have run: "?st = pathManagerTask_loop example_externals [example_input (0, 0)]
      (pathManagerTask_start example_externals 0 0 wide_arc_program
         \<lparr>ActiveSegment = 0, PathCounter = 0, Status = STATUS_INPROGRESS, Timeout = 0\<rparr>
         example_settings \<lparr>BestClimbRateSpeed = 10\<rparr>)"
    by (simp only: example_start_def)
  have arc: "PathCurvature (pathSegmentDescriptor_current ?st) \<noteq> 0"
    and unresolved: "arc_has_center ?st \<noteq> CENTER_FOUND"
    and active: "passActive example_externals ?inp ?st"
      "pathplanner_active (passState example_externals ?inp ?st)"
    and goal: "checkGoalCondition example_externals (300, 0) (gateState example_externals ?inp ?st)"
    and one: "ActiveSegment (pathManagerStatus ?st) = 1"
    by (simp_all add: gateState_def tick_defs advance_defs example_defs Let_def)
  have pos: "positionActual ?inp = (300, 0)"
    by (simp add: example_input_def)
  note law = unresolved_arc_stays_at_zero [OF run arc unresolved refl, of ?inp]
  have "ActiveSegment (pathManagerStatus (pathManagerTask_tick example_externals ?inp ?st)) =
          ActiveSegment (pathManagerStatus ?st) + 1"
    using law active goal unfolding pos by blast
  then have "ActiveSegment (pathManagerStatus (pathManagerTask_tick example_externals ?inp ?st)) = 2"
    unfolding one by (simp only: one_add_one)
  moreover have "angularDistanceToComplete_D ?st = 0"
    and "goalCheckDue example_externals (gateState example_externals ?inp ?st)"
    using law by blast+
  ultimately show ?thesis
    using arc unresolved active goal one by blast
qed

subsection \<open>The three branches at the end of a pass\<close>

text \<open>
  C7, as stated, fails. On the line program, the pass after the activating one, with the
  vehicle half way, is active and takes none of the three branches: it leaves the state
  as it was but for the wake-up time. And the eleventh pass of that run has the flag
  false, evaluates the timeout condition, finds it false, and then runs the overshoot
  check: the timeout test did not keep the overshoot check from running.
\<close>

theorem one_branch_per_pass_counterexample:
  "passActive example_externals (example_input (50, 0))
     (pathManagerTask_loop example_externals [example_input (0, 0)] (example_start line_program)) \<and>
   passBranch example_externals (example_input (50, 0))
     (pathManagerTask_loop example_externals [example_input (0, 0)] (example_start line_program))
     = BRANCH_NONE \<and>
   pathManagerTask_tick example_externals (example_input (50, 0))
     (pathManagerTask_loop example_externals [example_input (0, 0)] (example_start line_program))
     = (pathManagerTask_loop example_externals [example_input (0, 0)] (example_start line_program))
         \<lparr>lastSysTime := 200\<rparr> \<and>
   passActive example_externals (example_input (50, 0))
     (pathManagerTask_loop example_externals
       [example_input (0, 0), example_input (50, 0), example_input (50, 0), example_input (50, 0),
        example_input (50, 0), example_input (50, 0), example_input (50, 0), example_input (50, 0),
        example_input (50, 0), example_input (50, 0)] (example_start line_program)) \<and>
   \<not> dispatchFlag example_externals (example_input (50, 0))
     (pathManagerTask_loop example_externals
       [example_input (0, 0), example_input (50, 0), example_input (50, 0), example_input (50, 0),
        example_input (50, 0), example_input (50, 0), example_input (50, 0), example_input (50, 0),
        example_input (50, 0), example_input (50, 0)] (example_start line_program)) \<and>
   \<not> segmentTimedOut example_externals (dispatchState example_externals (example_input (50, 0))
     (pathManagerTask_loop example_externals
       [example_input (0, 0), example_input (50, 0), example_input (50, 0), example_input (50, 0),
        example_input (50, 0), example_input (50, 0), example_input (50, 0), example_input (50, 0),
        example_input (50, 0), example_input (50, 0)] (example_start line_program))) \<and>
   passBranch example_externals (example_input (50, 0))
     (pathManagerTask_loop example_externals
       [example_input (0, 0), example_input (50, 0), example_input (50, 0), example_input (50, 0),
        example_input (50, 0), example_input (50, 0), example_input (50, 0), example_input (50, 0),
        example_input (50, 0), example_input (50, 0)] (example_start line_program))
     = BRANCH_OVERSHOOT"
  by (simp add: passBranch_def dispatchFlag_def dispatchState_def gateState_def tick_defs
      advance_defs example_defs Let_def)

text \<open>
  C7, as the code has it. An active pass takes the first branch whose condition holds
  and no other: with the flag set it advances, whatever the timers say; with the flag
  clear and the segment timed out it flags the timeout and does not check for
  overshoot; with neither and the overshoot timer run out it checks for overshoot;
  with none of the three it does nothing.
\<close>

theorem pass_takes_first_branch_due:
  assumes "passActive ext inp st"
      and "flag = dispatchFlag ext inp st"
      and "s = dispatchState ext inp st"
  shows "(flag \<longrightarrow>
            pathManagerTask_tick ext inp st = advanceSegment ext (tickCount_advance inp) s) \<and>
         (\<not> flag \<and> segmentTimedOut ext s \<longrightarrow>
            pathManagerTask_tick ext inp st = flagTimedOut s) \<and>
         (\<not> flag \<and> \<not> segmentTimedOut ext s \<and> overshootCheckDue ext s \<longrightarrow>
            pathManagerTask_tick ext inp st = overshootPass (positionActual inp) s) \<and>
         (\<not> flag \<and> \<not> segmentTimedOut ext s \<and> \<not> overshootCheckDue ext s \<longrightarrow>
            pathManagerTask_tick ext inp st = s)"
  using assms by (simp add: tick_dispatch dispatch_def tickBranch_def)

theorem pass_takes_first_branch_due_witness:
  "passActive example_externals (example_input (0, 0)) (example_start line_program) \<and>
   dispatchFlag example_externals (example_input (0, 0)) (example_start line_program) \<and>
   pathManagerTask_tick example_externals (example_input (0, 0)) (example_start line_program) =
     advanceSegment example_externals 0
       (dispatchState example_externals (example_input (0, 0)) (example_start line_program)) \<and>
   ActiveSegment (pathManagerStatus
     (pathManagerTask_tick example_externals (example_input (0, 0)) (example_start line_program))) = 1"
  using pass_takes_first_branch_due [OF _ refl refl,
      of example_externals "example_input (0, 0)" "example_start line_program"]
  by (simp add: dispatchFlag_def dispatchState_def gateState_def tick_defs
      advance_defs example_defs Let_def)

subsection \<open>The half-plane strategy on the last segment\<close>

text \<open>
  C3. With the half-plane strategy selected and no instance at ActiveSegment + 1,
  checkGoalCondition returns false at every position, whatever the half-plane test
  itself would say; and a pass that reaches line 273 in such a state, with the program
  already active, ends on the same segment.
\<close>

theorem half_plane_holds_final_segment:
  assumes "SwitchingStrategy (pathManagerSettings st) = SWITCHINGSTRATEGY_HALFPLANE"
      and "\<not> unat (ActiveSegment (pathManagerStatus st)) + 1 < length (instances st)"
  shows "checkGoalCondition ext pos st = False \<and>
         (pathplanner_active st \<longrightarrow>
            ActiveSegment (pathManagerStatus (passTail ext inp st)) =
              ActiveSegment (pathManagerStatus st))"
proof -
  have never: "checkGoalCondition ext p st = False" for p
    using assms by (simp add: checkGoalCondition_def UAVObjGetNumInstances_def)
  then have "goalFlag ext (positionActual inp) st = False"
    by (simp add: goalFlag_def)
  then have "pathplanner_active st \<Longrightarrow> passTail ext inp st = dispatch ext inp False st"
    by (simp add: passTail_def activate_def)
  with never show ?thesis
    by (simp add: dispatch_no_advance)
qed

theorem half_plane_holds_final_segment_witness:
  "SwitchingStrategy (pathManagerSettings (gateState example_externals (example_input (100, 0))
     (pathManagerTask_loop example_externals [example_input (0, 0)] (half_plane_start line_program))))
     = SWITCHINGSTRATEGY_HALFPLANE \<and>
   ActiveSegment (pathManagerStatus (gateState example_externals (example_input (100, 0))
     (pathManagerTask_loop example_externals [example_input (0, 0)] (half_plane_start line_program))))
     = 1 \<and>
   length (instances (gateState example_externals (example_input (100, 0))
     (pathManagerTask_loop example_externals [example_input (0, 0)] (half_plane_start line_program))))
     = 2 \<and>
   pathplanner_active (gateState example_externals (example_input (100, 0))
     (pathManagerTask_loop example_externals [example_input (0, 0)] (half_plane_start line_program))) \<and>
   checkGoalCondition example_externals (100, 0) (gateState example_externals (example_input (100, 0))
     (pathManagerTask_loop example_externals [example_input (0, 0)] (half_plane_start line_program)))
     = False \<and>
   ActiveSegment (pathManagerStatus (pathManagerTask_loop example_externals
     [example_input (0, 0), example_input (100, 0)] (half_plane_start line_program))) = 1"
  using half_plane_holds_final_segment [of
     "gateState example_externals (example_input (100, 0))
        (pathManagerTask_loop example_externals [example_input (0, 0)] (half_plane_start line_program))"
     example_externals "(100, 0)" "example_input (100, 0)"]
  by (simp add: gateState_def tick_defs advance_defs example_defs Let_def)

subsection \<open>The index at the end of its range\<close>

lemma on_last_line_pass:
  assumes "on_last_line st"
  shows "pathManagerTask_tick example_externals (example_input (100, 0)) st =
           advanceSegment example_externals 0 (st\<lparr>lastSysTime := lastSysTime st + 100\<rparr>)"
  using assms
  by (simp add: on_last_line_def tick_defs example_defs Let_def)

lemma on_last_line_index:
  assumes "on_last_line st"
  shows "ActiveSegment (pathManagerStatus
           (pathManagerTask_tick example_externals (example_input (100, 0)) st)) =
         ActiveSegment (pathManagerStatus st) + 1"
  by (simp add: on_last_line_pass [OF assms] advanceSegment_def)

lemma on_last_line_kept:
  assumes "on_last_line st" and "2 \<le> unat (ActiveSegment (pathManagerStatus st) + 1)"
  shows "on_last_line (pathManagerTask_tick example_externals (example_input (100, 0)) st)"
proof -
  let ?st = "st\<lparr>lastSysTime := lastSysTime st + 100\<rparr>"
  let ?mid = "advanceSegment_load example_externals ?st"
  have cur: "pathSegmentDescriptor_current ?mid = line_program ! 1"
    using assms by (simp add: on_last_line_def PathSegmentDescriptorInstGet_def line_program_def)
  then have "PathCurvature (pathSegmentDescriptor_current ?mid) = 0"
    by (simp add: line_program_def)
  then have "angularDistanceToComplete_D (advanceSegment_arc example_externals ?mid) = 0"
    by (simp add: advanceSegment_arc_def Let_def)
  then show ?thesis
    using assms(1) cur
    by (simp add: on_last_line_pass [OF assms(1)] on_last_line_def advanceSegment_def)
qed

lemma on_last_line_run:
  assumes "on_last_line st"
      and "1 \<le> unat (ActiveSegment (pathManagerStatus st))"
      and "unat (ActiveSegment (pathManagerStatus st)) + k \<le> 65535"
  shows "on_last_line (pathManagerTask_loop example_externals (resting_passes k) st) \<and>
         ActiveSegment (pathManagerStatus (pathManagerTask_loop example_externals
           (resting_passes k) st)) =
           ActiveSegment (pathManagerStatus st) + of_nat k"
  using assms
proof (induction k arbitrary: st)
  case 0
  then show ?case by (simp add: resting_passes_def)
next
  case (Suc k)
  let ?w = "ActiveSegment (pathManagerStatus st)"
  let ?st = "pathManagerTask_tick example_externals (example_input (100, 0)) st"
  have "?w \<noteq> 65535"
    using Suc.prems(3) by auto
  then have next_index: "unat (?w + 1) = unat ?w + 1"
    by (rule unat_succ_16)
  have idx: "ActiveSegment (pathManagerStatus ?st) = ?w + 1"
    using Suc.prems(1) by (rule on_last_line_index)
  have "on_last_line ?st"
    using Suc.prems(1,2) next_index by (intro on_last_line_kept) simp_all
  moreover have "1 \<le> unat (ActiveSegment (pathManagerStatus ?st))"
    using idx next_index by simp
  moreover have "unat (ActiveSegment (pathManagerStatus ?st)) + k \<le> 65535"
    using idx next_index Suc.prems(3) by simp
  ultimately have "on_last_line (pathManagerTask_loop example_externals (resting_passes k) ?st) \<and>
         ActiveSegment (pathManagerStatus (pathManagerTask_loop example_externals
           (resting_passes k) ?st)) =
           ActiveSegment (pathManagerStatus ?st) + of_nat k"
    by (rule Suc.IH)
  then show ?case
    using idx by (simp add: resting_passes_def add.assoc)
qed

lemma loop_append:
  "pathManagerTask_loop ext (inps @ [inp]) st =
     pathManagerTask_tick ext inp (pathManagerTask_loop ext inps st)"
  by (induction inps arbitrary: st) simp_all

lemma line_program_activated:
  "on_last_line (pathManagerTask_tick example_externals (example_input (0, 0))
     (example_start line_program))"
  "ActiveSegment (pathManagerStatus (pathManagerTask_tick example_externals (example_input (0, 0))
     (example_start line_program))) = 1"
  by (simp_all add: on_last_line_def tick_defs advance_defs example_defs Let_def sqrt_10000)

text \<open>
  C2, as stated, fails. On the line program, with the vehicle resting on the target of
  the last segment, every pass advances once more. After the activating pass and 65534
  such passes the index is 65535, and the advance of the next pass takes it to 0: the
  index does not grow by one there.
\<close>

theorem advance_wraps_index_counterexample:
  "ActiveSegment (pathManagerStatus (pathManagerTask_loop example_externals
     (example_input (0, 0) # resting_passes 65534)
     (example_start line_program))) = 65535 \<and>
   ActiveSegment (pathManagerStatus (pathManagerTask_loop example_externals
     (example_input (0, 0) # resting_passes 65534 @ [example_input (100, 0)])
     (example_start line_program))) = 0"
proof -
  let ?s1 = "pathManagerTask_tick example_externals (example_input (0, 0)) (example_start line_program)"
  let ?s = "pathManagerTask_loop example_externals (resting_passes 65534) ?s1"
  have run: "on_last_line ?s \<and>
      ActiveSegment (pathManagerStatus ?s) = ActiveSegment (pathManagerStatus ?s1) + of_nat 65534"
    by (rule on_last_line_run) (simp_all add: line_program_activated)
  then have top: "ActiveSegment (pathManagerStatus ?s) = 65535"
    by (simp add: line_program_activated)
  have "ActiveSegment (pathManagerStatus
          (pathManagerTask_tick example_externals (example_input (100, 0)) ?s)) = 0"
    using run top by (simp add: on_last_line_index)
  then show ?thesis
    using top by (simp add: loop_append)
qed

end
